theory Spec2Isabelle
  imports Complex_Main "HOL-Library.Sublist" "HOL-Library.Multiset"
begin

section \<open>Products\<close>

text \<open>
  \<^verbatim>\<open>ProductSchema\<close> (src/index.ts, lines 7-16): eight string fields. The two keys
  \<^verbatim>\<open>start_date|datetime\<close> and \<^verbatim>\<open>end_date|datetime\<close> are written with an underscore.
  JavaScript strings are modelled as \<^typ>\<open>string\<close>; a character outside ASCII stands as
  its UTF-8 bytes, none of which is a character the program looks for or replaces.
\<close>

record product =
  machine_name :: string
  tile_name :: string
  product_url :: string
  detailed_marketing_blurb :: string
  tile_image :: string
  start_date_datetime :: string
  end_date_datetime :: string
  tile_stamp :: string

text \<open>\<^verbatim>\<open>SectionSchema\<close>, \<^verbatim>\<open>CategorySchema\<close>, \<^verbatim>\<open>DataSchema\<close> and \<^verbatim>\<open>LandingPageSchema\<close>
  (lines 18-34); an optional category is an \<^typ>\<open>'a option\<close>.\<close>

record mosaicSection =
  products :: "product list"

record category =
  mosaic :: "mosaicSection list"

record landingData =
  books :: "category option"
  games :: "category option"
  software :: "category option"

record landingPage =
  data :: landingData

text \<open>The selector type \<^verbatim>\<open>"games" | "books" | "software"\<close> of \<^verbatim>\<open>filterByCategory\<close> and
  \<^verbatim>\<open>handleRssRequest\<close>, with the string each value is.\<close>

datatype selector = Games | Books | Software

fun selectorString :: "selector \<Rightarrow> string" where
  "selectorString Games = ''games''"
| "selectorString Books = ''books''"
| "selectorString Software = ''software''"


section \<open>Parsed JSON and validation issues\<close>

text \<open>A value as \<^verbatim>\<open>JSON.parse\<close> returns it. An object is the list of its properties, looked
  up with \<^const>\<open>map_of\<close>.\<close>

datatype json =
  JNull
| JBool bool
| JNumber rat
| JString string
| JArray "json list"
| JObject "(string \<times> json) list"

text \<open>An issue of a failed validation: its code and the path of the offending value, a list
  of object keys and array indices from the root of the payload.\<close>

datatype seg = Key string | Index nat

datatype issue_code = invalid_type | invalid_format

datatype issue = Issue (issueCode: issue_code) (issuePath: "seg list")


section \<open>Runtime services\<close>

text \<open>
  What the program takes from the JavaScript runtime and from the validation library is a
  parameter of the model:
  \<^item> \<open>dateParse s\<close> is \<^verbatim>\<open>new Date(s).getTime()\<close>: the time value in milliseconds, or
    \<open>None\<close> where JavaScript yields \<^verbatim>\<open>NaN\<close> (an invalid date);
  \<^item> \<open>toUTCString t\<close> is \<^verbatim>\<open>toUTCString()\<close> of the date with time value \<open>t\<close>;
  \<^item> \<open>toLocaleDateString t\<close> is \<^verbatim>\<open>toLocaleDateString("en-US", {month: "long", day: "numeric",
    year: "numeric"})\<close> of that date;
  \<^item> \<open>jsonParse s\<close> is \<^verbatim>\<open>JSON.parse(s)\<close>: the value, or the message of the
    \<^verbatim>\<open>SyntaxError\<close> thrown;
  \<^item> \<open>isUrl s\<close> is the test of \<^verbatim>\<open>z.url()\<close> on a string;
  \<^item> \<open>zodMessage issues\<close> is the \<^verbatim>\<open>message\<close> of the error \<^verbatim>\<open>parse\<close> throws for these
    issues (their JSON text).
\<close>

record runtime =
  dateParse :: "string \<Rightarrow> int option"
  toUTCString :: "int option \<Rightarrow> string"
  toLocaleDateString :: "int option \<Rightarrow> string"
  jsonParse :: "string \<Rightarrow> string + json"
  isUrl :: "string \<Rightarrow> bool"
  zodMessage :: "issue list \<Rightarrow> string"


section \<open>Schema validation\<close>

text \<open>
  Modelled from the spec: the validation library (\<^verbatim>\<open>zod\<close>) is not part of the repository;
  what \<^verbatim>\<open>z.object\<close>, \<^verbatim>\<open>z.array\<close>, \<^verbatim>\<open>z.string\<close>, \<^verbatim>\<open>z.url\<close>, \<^verbatim>\<open>optional\<close> and
  \<^verbatim>\<open>parse\<close> do is taken from section 4.2, step 2, of the specification ("any missing
  required field or wrong field type fails with a validation error naming the offending
  path"), over the schemas the source declares in lines 7-34. A schema is a function of the
  path of the value and of the value (\<open>None\<close> for a property that is absent); it returns
  the typed value or the issues found. Checking goes on after an issue, so that every
  offending value is named.
\<close>

type_synonym 'a validation = "issue list + 'a"

fun collect :: "('a \<Rightarrow> 'b) validation \<Rightarrow> 'a validation \<Rightarrow> 'b validation" where
  "collect (Inr f) (Inr x) = Inr (f x)"
| "collect (Inr f) (Inl ys) = Inl ys"
| "collect (Inl xs) (Inr x) = Inl xs"
| "collect (Inl xs) (Inl ys) = Inl (xs @ ys)"

definition zString :: "seg list \<Rightarrow> json option \<Rightarrow> string validation" where
  "zString p j = (case j of Some (JString s) \<Rightarrow> Inr s | _ \<Rightarrow> Inl [Issue invalid_type p])"

definition zUrl :: "runtime \<Rightarrow> seg list \<Rightarrow> json option \<Rightarrow> string validation" where
  "zUrl rt p j =
     (case j of
        Some (JString s) \<Rightarrow> if isUrl rt s then Inr s else Inl [Issue invalid_format p]
      | _ \<Rightarrow> Inl [Issue invalid_type p])"

fun zItems :: "(seg list \<Rightarrow> json option \<Rightarrow> 'a validation) \<Rightarrow> seg list \<Rightarrow> nat \<Rightarrow> json list
    \<Rightarrow> 'a list validation" where
  "zItems S p i [] = Inr []"
| "zItems S p i (x # xs) =
     collect (collect (Inr (#)) (S (p @ [Index i]) (Some x))) (zItems S p (Suc i) xs)"

definition zArray :: "(seg list \<Rightarrow> json option \<Rightarrow> 'a validation) \<Rightarrow> seg list \<Rightarrow> json option
    \<Rightarrow> 'a list validation" where
  "zArray S p j = (case j of Some (JArray xs) \<Rightarrow> zItems S p 0 xs | _ \<Rightarrow> Inl [Issue invalid_type p])"

definition zOptional :: "(seg list \<Rightarrow> json option \<Rightarrow> 'a validation) \<Rightarrow> seg list \<Rightarrow> json option
    \<Rightarrow> 'a option validation" where
  "zOptional S p j =
     (case j of
        None \<Rightarrow> Inr None
      | Some v \<Rightarrow> (case S p j of Inl issues \<Rightarrow> Inl issues | Inr x \<Rightarrow> Inr (Some x)))"

text \<open>\<^verbatim>\<open>ProductSchema\<close> (lines 7-16).\<close>

definition ProductSchema :: "runtime \<Rightarrow> seg list \<Rightarrow> json option \<Rightarrow> product validation" where
  "ProductSchema rt p j =
     (case j of
        Some (JObject kvs) \<Rightarrow>
          collect (collect (collect (collect (collect (collect (collect (collect
            (Inr (\<lambda>a b c d e f g h.
                   \<lparr>machine_name = a, tile_name = b, product_url = c,
                    detailed_marketing_blurb = d, tile_image = e, start_date_datetime = f,
                    end_date_datetime = g, tile_stamp = h\<rparr>))
            (zString (p @ [Key ''machine_name'']) (map_of kvs ''machine_name'')))
            (zString (p @ [Key ''tile_name'']) (map_of kvs ''tile_name'')))
            (zString (p @ [Key ''product_url'']) (map_of kvs ''product_url'')))
            (zString (p @ [Key ''detailed_marketing_blurb''])
               (map_of kvs ''detailed_marketing_blurb'')))
            (zUrl rt (p @ [Key ''tile_image'']) (map_of kvs ''tile_image'')))
            (zString (p @ [Key ''start_date|datetime'']) (map_of kvs ''start_date|datetime'')))
            (zString (p @ [Key ''end_date|datetime'']) (map_of kvs ''end_date|datetime'')))
            (zString (p @ [Key ''tile_stamp'']) (map_of kvs ''tile_stamp''))
      | _ \<Rightarrow> Inl [Issue invalid_type p])"

text \<open>\<^verbatim>\<open>SectionSchema\<close> (lines 18-20).\<close>

definition SectionSchema :: "runtime \<Rightarrow> seg list \<Rightarrow> json option \<Rightarrow> mosaicSection validation" where
  "SectionSchema rt p j =
     (case j of
        Some (JObject kvs) \<Rightarrow>
          collect (Inr (\<lambda>ps. \<lparr>products = ps\<rparr>))
            (zArray (ProductSchema rt) (p @ [Key ''products'']) (map_of kvs ''products''))
      | _ \<Rightarrow> Inl [Issue invalid_type p])"

text \<open>\<^verbatim>\<open>CategorySchema\<close> (lines 22-24).\<close>

definition CategorySchema :: "runtime \<Rightarrow> seg list \<Rightarrow> json option \<Rightarrow> category validation" where
  "CategorySchema rt p j =
     (case j of
        Some (JObject kvs) \<Rightarrow>
          collect (Inr (\<lambda>ss. \<lparr>mosaic = ss\<rparr>))
            (zArray (SectionSchema rt) (p @ [Key ''mosaic'']) (map_of kvs ''mosaic''))
      | _ \<Rightarrow> Inl [Issue invalid_type p])"

text \<open>\<^verbatim>\<open>DataSchema\<close> (lines 26-30).\<close>

definition DataSchema :: "runtime \<Rightarrow> seg list \<Rightarrow> json option \<Rightarrow> landingData validation" where
  "DataSchema rt p j =
     (case j of
        Some (JObject kvs) \<Rightarrow>
          collect (collect (collect
            (Inr (\<lambda>b g s. \<lparr>books = b, games = g, software = s\<rparr>))
            (zOptional (CategorySchema rt) (p @ [Key ''books'']) (map_of kvs ''books'')))
            (zOptional (CategorySchema rt) (p @ [Key ''games'']) (map_of kvs ''games'')))
            (zOptional (CategorySchema rt) (p @ [Key ''software'']) (map_of kvs ''software''))
      | _ \<Rightarrow> Inl [Issue invalid_type p])"

text \<open>\<^verbatim>\<open>LandingPageSchema\<close> (lines 32-34).\<close>

definition LandingPageSchema :: "runtime \<Rightarrow> seg list \<Rightarrow> json option \<Rightarrow> landingPage validation" where
  "LandingPageSchema rt p j =
     (case j of
        Some (JObject kvs) \<Rightarrow>
          collect (Inr (\<lambda>d. \<lparr>data = d\<rparr>)) (DataSchema rt (p @ [Key ''data'']) (map_of kvs ''data''))
      | _ \<Rightarrow> Inl [Issue invalid_type p])"


section \<open>Fetching and parsing\<close>

text \<open>The number \<open>n\<close> as a template literal prints it.\<close>

definition digit :: "nat \<Rightarrow> char" where
  "digit d =
     (if d = 0 then CHR ''0'' else if d = 1 then CHR ''1'' else if d = 2 then CHR ''2''
      else if d = 3 then CHR ''3'' else if d = 4 then CHR ''4'' else if d = 5 then CHR ''5''
      else if d = 6 then CHR ''6'' else if d = 7 then CHR ''7'' else if d = 8 then CHR ''8''
      else CHR ''9'')"

fun decimal :: "nat \<Rightarrow> string" where
  "decimal n = (if n < 10 then [digit n] else decimal (n div 10) @ [digit (n mod 10)])"

declare decimal.simps [simp del]

text \<open>
  What the program can throw, one constructor for each place, and the \<^verbatim>\<open>message\<close> of each:
  a rejected \<^verbatim>\<open>fetch\<close> or body read (lines 47, 52), the two errors of lines 49 and 55, the
  \<^verbatim>\<open>SyntaxError\<close> of \<^verbatim>\<open>JSON.parse\<close> (line 58) and the error of \<^verbatim>\<open>LandingPageSchema.parse\<close>
  (line 59). Each of them is an \<^verbatim>\<open>Error\<close> object.
\<close>

datatype error =
  FetchRejected string
| FetchFailed nat
| ScriptTagMissing
| JsonSyntaxError string
| ZodError "issue list"

fun message :: "runtime \<Rightarrow> error \<Rightarrow> string" where
  "message rt (FetchRejected m) = m"
| "message rt (FetchFailed st) = ''Failed to fetch Humble Bundle page: '' @ decimal st"
| "message rt ScriptTagMissing = ''Could not find landingPage-json-data script tag''"
| "message rt (JsonSyntaxError m) = m"
| "message rt (ZodError issues) = zodMessage rt issues"

text \<open>What \<^verbatim>\<open>fetch(HUMBLE_BUNDLES_URL)\<close> comes to: a rejection with a message, or a response
  with its status and the outcome of \<^verbatim>\<open>response.text()\<close> (a rejection or the body).\<close>

datatype upstream = Rejected string | Responded nat "string + string"

text \<open>\<^verbatim>\<open>SCRIPT_TAG_REGEX\<close> (lines 43-44) is an opening tag, a lazy \<^verbatim>\<open>[\s\S]*?\<close> in group 1
  and the closing tag. Its first match starts at the first opening tag that a closing tag
  follows, and group 1 ends at the first closing tag after it.
  \<open>findFirst needle s\<close> is the text before and after the first \<open>needle\<close> in \<open>s\<close>.\<close>

definition scriptOpen :: string where
  \<open>scriptOpen = ''<script id="landingPage-json-data" type="application/json">''\<close>

definition scriptClose :: string where
  "scriptClose = ''</script>''"

fun findFirst :: "string \<Rightarrow> string \<Rightarrow> (string \<times> string) option" where
  "findFirst needle [] = (if needle = [] then Some ([], []) else None)"
| "findFirst needle (c # cs) =
     (if prefix needle (c # cs) then Some ([], drop (length needle) (c # cs))
      else (case findFirst needle cs of
              None \<Rightarrow> None
            | Some (before, after) \<Rightarrow> Some (c # before, after)))"

text \<open>\<^verbatim>\<open>html.match(SCRIPT_TAG_REGEX)\<close>: group 1 of the match, \<open>None\<close> for \<^verbatim>\<open>null\<close>.\<close>

definition matchScriptTag :: "string \<Rightarrow> string option" where
  "matchScriptTag html =
     (case findFirst scriptOpen html of
        None \<Rightarrow> None
      | Some (before, rest) \<Rightarrow>
          (case findFirst scriptClose rest of
             None \<Rightarrow> None
           | Some (inner, after) \<Rightarrow> Some inner))"

text \<open>Lines 47-59 of \<^verbatim>\<open>fetchBundles\<close>: fetch, extract, parse, validate. An empty group 1
  is falsy and counts as no match (line 54).\<close>

definition fetchPayload :: "runtime \<Rightarrow> upstream \<Rightarrow> error + landingPage" where
  "fetchPayload rt up =
     (case up of
        Rejected m \<Rightarrow> Inl (FetchRejected m)
      | Responded st txt \<Rightarrow>
          if \<not> (200 \<le> st \<and> st \<le> 299) then Inl (FetchFailed st)
          else (case txt of
                  Inl m \<Rightarrow> Inl (FetchRejected m)
                | Inr html \<Rightarrow>
                    (case matchScriptTag html of
                       None \<Rightarrow> Inl ScriptTagMissing
                     | Some m1 \<Rightarrow>
                         if m1 = [] then Inl ScriptTagMissing
                         else (case jsonParse rt m1 of
                                 Inl m \<Rightarrow> Inl (JsonSyntaxError m)
                               | Inr rawData \<Rightarrow>
                                   (case LandingPageSchema rt [] (Some rawData) of
                                      Inl issues \<Rightarrow> Inl (ZodError issues)
                                    | Inr validated \<Rightarrow> Inr validated)))))"

text \<open>Lines 61-69: the categories in the order books, games, software, an absent one
  skipped; every section's products pushed onto the end of the list.\<close>

definition collectProducts :: "landingData \<Rightarrow> product list" where
  "collectProducts d =
     foldl (\<lambda>acc c. case c of
                       None \<Rightarrow> acc
                     | Some cat \<Rightarrow> foldl (\<lambda>acc' sec. acc' @ products sec) acc (mosaic cat))
       [] [books d, games d, software d]"

text \<open>The comparator of lines 72-76: \<^verbatim>\<open>dateB - dateA\<close>, which is \<^verbatim>\<open>NaN\<close> (\<open>None\<close>) as soon as
  one of the two dates is invalid. The sign of the difference of two time values is exact
  in doubles.\<close>

definition compareStart :: "runtime \<Rightarrow> product \<Rightarrow> product \<Rightarrow> int option" where
  "compareStart rt a b =
     (let dateA = dateParse rt (start_date_datetime a);
          dateB = dateParse rt (start_date_datetime b)
      in case (dateB, dateA) of (Some y, Some x) \<Rightarrow> Some (y - x) | _ \<Rightarrow> None)"

text \<open>
  \<^verbatim>\<open>Array.prototype.sort\<close> with a comparator. ECMAScript requires the sort to be stable and
  leaves the result open when the comparator does not order the elements consistently,
  as here when it returns \<^verbatim>\<open>NaN\<close>. The program is served by \<^verbatim>\<open>Bun.serve\<close>, whose engine
  (JavaScriptCore) sorts a run of elements by binary insertion: each element in turn is
  placed into the part already sorted, at the position a binary search finds with the
  test \<^verbatim>\<open>comparefn(value, target) < 0\<close>, which is false for \<^verbatim>\<open>NaN\<close> (\<open>sortCompare\<close> reads
  \<^verbatim>\<open>NaN\<close> as \<open>+0\<close>). The model is this insertion over the whole array. Where the
  comparator is consistent every stable sort returns the same list, whatever the length;
  where it is not, the model follows the engine on an array short enough to be one run.
\<close>

definition sortCompare :: "('a \<Rightarrow> 'a \<Rightarrow> int option) \<Rightarrow> 'a \<Rightarrow> 'a \<Rightarrow> int" where
  "sortCompare comparefn x y = (case comparefn x y of None \<Rightarrow> 0 | Some v \<Rightarrow> v)"

text \<open>The binary search: the position for \<open>v\<close> among the elements \<open>left\<close> to \<open>right - 1\<close>
  of \<open>before\<close>. It is called with \<open>right\<close> the length of \<open>before\<close>, so that \<open>m\<close> is an index
  of it.\<close>

function searchInsert :: "('a \<Rightarrow> 'a \<Rightarrow> int option) \<Rightarrow> 'a \<Rightarrow> 'a list \<Rightarrow> nat \<Rightarrow> nat \<Rightarrow> nat" where
  "searchInsert comparefn v before left right =
     (if left < right
      then (let m = left + (right - left) div 2
            in if sortCompare comparefn v (before ! m) < 0
               then searchInsert comparefn v before left m
               else searchInsert comparefn v before (m + 1) right)
      else left)"
  by pat_completeness auto

termination
  by (relation "measure (\<lambda>(comparefn, v, before, left, right). right - left)") auto

declare searchInsert.simps [simp del]

definition insertSorted :: "('a \<Rightarrow> 'a \<Rightarrow> int option) \<Rightarrow> 'a list \<Rightarrow> 'a \<Rightarrow> 'a list" where
  "insertSorted comparefn before v =
     (let left = searchInsert comparefn v before 0 (length before)
      in take left before @ v # drop left before)"

definition arraySort :: "('a \<Rightarrow> 'a \<Rightarrow> int option) \<Rightarrow> 'a list \<Rightarrow> 'a list" where
  "arraySort comparefn xs = foldl (insertSorted comparefn) [] xs"

text \<open>\<^verbatim>\<open>fetchBundles\<close> (lines 46-79).\<close>

definition fetchBundles :: "runtime \<Rightarrow> upstream \<Rightarrow> error + product list" where
  "fetchBundles rt up =
     (case fetchPayload rt up of
        Inl e \<Rightarrow> Inl e
      | Inr validated \<Rightarrow> Inr (arraySort (compareStart rt) (collectProducts (data validated))))"

text \<open>\<^verbatim>\<open>filterByCategory\<close> (lines 81-86): \<^verbatim>\<open>Array.prototype.filter\<close> builds a new array
  of the elements that pass, in their order; \<^verbatim>\<open>===\<close> on strings is equality.\<close>

definition filterByCategory :: "product list \<Rightarrow> selector \<Rightarrow> product list" where
  "filterByCategory prods category = filter (\<lambda>p. tile_stamp p = selectorString category) prods"

text \<open>The same call on a store of arrays, where an array is its index in the store:
  the result is a newly allocated array and no array of the store is written.\<close>

definition filterByCategoryStore :: "product list list \<Rightarrow> nat \<Rightarrow> selector
    \<Rightarrow> (product list list \<times> nat) option" where
  "filterByCategoryStore store ref category =
     (if ref < length store
      then Some (store @ [filterByCategory (store ! ref) category], length store)
      else None)"


section \<open>Escaping\<close>

text \<open>\<^verbatim>\<open>str.replace(/c/g, r)\<close> for a one-character pattern \<open>c\<close> and a replacement \<open>r\<close>
  without \<^verbatim>\<open>$\<close>: every occurrence of \<open>c\<close> becomes \<open>r\<close>, left to right.\<close>

fun replaceAll :: "char \<Rightarrow> string \<Rightarrow> string \<Rightarrow> string" where
  "replaceAll c r [] = []"
| "replaceAll c r (x # xs) = (if x = c then r @ replaceAll c r xs else x # replaceAll c r xs)"

text \<open>\<^verbatim>\<open>escapeXml\<close> (lines 92-99): five replacements, the ampersand first.\<close>

definition escapeXml :: "string \<Rightarrow> string" where
  "escapeXml str =
     replaceAll (CHR 0x27) ''&apos;''
       (replaceAll (CHR 0x22) ''&quot;''
         (replaceAll CHR ''>'' ''&gt;''
           (replaceAll CHR ''<'' ''&lt;''
             (replaceAll CHR ''&'' ''&amp;'' str))))"

text \<open>\<^verbatim>\<open>escapeHtml\<close> (lines 160-166): the first four of them.\<close>

definition escapeHtml :: "string \<Rightarrow> string" where
  "escapeHtml str =
     replaceAll (CHR 0x22) ''&quot;''
       (replaceAll CHR ''>'' ''&gt;''
         (replaceAll CHR ''<'' ''&lt;''
           (replaceAll CHR ''&'' ''&amp;'' str)))"

text \<open>The escaped forms as the specification words them: each metacharacter of the text
  stands for its entity, every other character for itself.\<close>

definition xmlEntity :: "char \<Rightarrow> string" where
  "xmlEntity c =
     (if c = CHR ''&'' then ''&amp;''
      else if c = CHR ''<'' then ''&lt;''
      else if c = CHR ''>'' then ''&gt;''
      else if c = CHR 0x22 then ''&quot;''
      else if c = CHR 0x27 then ''&apos;''
      else [c])"

definition xmlEscaped :: "string \<Rightarrow> string" where
  "xmlEscaped str = concat (map xmlEntity str)"




section \<open>Feed renderer\<close>

text \<open>\<^verbatim>\<open>Array.prototype.join\<close> on strings.\<close>

fun join :: "string \<Rightarrow> string list \<Rightarrow> string" where
  "join sep [] = []"
| "join sep [x] = x"
| "join sep (x # y # ys) = x @ sep @ join sep (y # ys)"

definition HUMBLE_BUNDLES_URL :: string where
  "HUMBLE_BUNDLES_URL = ''https://www.humblebundle.com/bundles''"

text \<open>The body of the \<^verbatim>\<open>map\<close> callback of \<^verbatim>\<open>generateRss\<close> (lines 113-139). The local
  \<^verbatim>\<open>description\<close> (lines 117-123, the only use of \<^verbatim>\<open>stripHtml\<close>) is never read and has
  no part in the result.\<close>

definition rssItem :: "runtime \<Rightarrow> product \<Rightarrow> string" where
  \<open>rssItem rt product =
     (let link = ''https://www.humblebundle.com'' @ product_url product;
          pubDate = toUTCString rt (dateParse rt (start_date_datetime product));
          endDate = dateParse rt (end_date_datetime product)
      in ''    <item>\<newline>      <title>'' @ escapeXml (tile_name product) @ ''</title>\<newline>      <link>''
         @ escapeXml link @ ''</link>\<newline>      <description><![CDATA[<img src="''
         @ tile_image product @ ''" /><br/><br/>'' @ detailed_marketing_blurb product
         @ ''<br/><br/><strong>Ends:</strong> '' @ toLocaleDateString rt endDate
         @ '']]></description>\<newline>      <pubDate>'' @ pubDate
         @ ''</pubDate>\<newline>      <guid isPermaLink="false">'' @ escapeXml (machine_name product)
         @ ''</guid>\<newline>      <category>'' @ escapeXml (tile_stamp product)
         @ ''</category>\<newline>    </item>'')\<close>

text \<open>\<^verbatim>\<open>generateRss\<close> (lines 105-154); \<open>now\<close> is the time value of \<^verbatim>\<open>new Date()\<close>, \<open>prods\<close> the
  argument \<^verbatim>\<open>products\<close>.\<close>

definition generateRss :: "runtime \<Rightarrow> int \<Rightarrow> product list \<Rightarrow> string \<Rightarrow> string \<Rightarrow> string" where
  \<open>generateRss rt now prods title canonicalUrl =
     (let items = join ''\<newline>'' (map (rssItem rt) prods)
      in ''<?xml version="1.0" encoding="UTF-8"?>\<newline><rss version="2.0" xmlns:atom="http://www.w3.org/2005/Atom">\<newline>  <channel>\<newline>    <title>''
         @ escapeXml title @ ''</title>\<newline>    <link>'' @ HUMBLE_BUNDLES_URL
         @ ''</link>\<newline>    <description>Current bundles available on Humble Bundle</description>\<newline>    <language>en-us</language>\<newline>    <lastBuildDate>''
         @ toUTCString rt (Some now) @ ''</lastBuildDate>\<newline>    <atom:link href="'' @ canonicalUrl
         @ ''" rel="self" type="application/rss+xml"/>\<newline>'' @ items
         @ ''\<newline>  </channel>\<newline></rss>'')\<close>

section \<open>Page renderer\<close>

text \<open>JavaScript's \<^verbatim>\<open><=\<close> and \<^verbatim>\<open>>\<close> on a number that may be \<^verbatim>\<open>NaN\<close> (\<open>None\<close>) and a
  constant: every comparison with \<^verbatim>\<open>NaN\<close> is false.\<close>

fun jsLe :: "rat option \<Rightarrow> rat \<Rightarrow> bool" where
  "jsLe None y = False"
| "jsLe (Some x) y = (x \<le> y)"

fun jsGt :: "rat option \<Rightarrow> rat \<Rightarrow> bool" where
  "jsGt None y = False"
| "jsGt (Some x) y = (x > y)"

text \<open>\<^verbatim>\<open>(endDate.getTime() - now) / (1000 * 60 * 60)\<close> (line 174). Time values are whole
  numbers of milliseconds below \<open>2^53\<close>, so the difference is exact; the quotient is
  kept as a rational, against which the constants 0, 24 and 168 compare as the rounded
  double does.\<close>

definition hoursLeft :: "int option \<Rightarrow> int \<Rightarrow> rat option" where
  "hoursLeft endTime now =
     (case endTime of None \<Rightarrow> None | Some e \<Rightarrow> Some (of_int (e - now) / (1000 * 60 * 60)))"

text \<open>Lines 175-177.\<close>

definition statusClass :: "rat option \<Rightarrow> string" where
  "statusClass h =
     (if jsLe h 24 \<and> jsGt h 0 then ''urgent''
      else if jsLe h 168 then ''soon''
      else ''ok'')"

text \<open>The body of the \<^verbatim>\<open>map\<close> callback of \<^verbatim>\<open>generateHomepage\<close> (lines 171-185).\<close>

definition homepageItem :: "runtime \<Rightarrow> int \<Rightarrow> product \<Rightarrow> string" where
  \<open>homepageItem rt now p =
     (let link = ''https://www.humblebundle.com'' @ product_url p;
          endDate = dateParse rt (end_date_datetime p)
      in ''      <li><span class="entry '' @ statusClass (hoursLeft endDate now)
         @ ''"><span class="cat">['' @ escapeHtml (tile_stamp p)
         @ '']</span> <a href="'' @ escapeHtml link @ ''" title="'' @ escapeHtml (tile_name p)
         @ ''" target="_blank" rel="noopener noreferrer nofollow">'' @ escapeHtml (tile_name p)
         @ ''</a></span></li>'')\<close>


text \<open>The text of the template of \<^verbatim>\<open>generateHomepage\<close> before \<^verbatim>\<open>${feedItems}\<close>
  (lines 188-264) and after it (lines 265-272).\<close>

definition homepageHead :: string where
  \<open>homepageHead =
     ''<!DOCTYPE html>\<newline>''
     @ ''<html lang="en">\<newline>''
     @ ''<head>\<newline>''
     @ ''  <meta charset="UTF-8">\<newline>''
     @ ''  <meta name="viewport" content="width=device-width, initial-scale=1.0">\<newline>''
     @ ''  <title>Humble Bundle RSS Feeds</title>\<newline>''
     @ ''  <meta name="description" content="Unofficial RSS feeds for current Humble Bundle offer''
     @ ''ings.">\<newline>''
     @ ''  <link rel="alternate" type="application/rss+xml" title="Humble Bundle RSS" href="/rss"''
     @ ''>\<newline>''
     @ ''  <link rel="icon" type="image/svg+xml" href="/favicon.ico">\<newline>''
     @ ''  <style>\<newline>''
     @ ''    :root {\<newline>''
     @ ''      --bg: #fafafa;\<newline>''
     @ ''      --fg: #222;\<newline>''
     @ ''      --muted: #666;\<newline>''
     @ ''      --link: #0066cc;\<newline>''
     @ ''      --accent: #b33;\<newline>''
     @ ''      --border: #ccc;\<newline>''
     @ ''      --green: #1a7a1a;\<newline>''
     @ ''      --yellow: #7a6a00;\<newline>''
     @ ''      --red: #b33;\<newline>''
     @ ''    }\<newline>''
     @ ''    @media (prefers-color-scheme: dark) {\<newline>''
     @ ''      :root {\<newline>''
     @ ''        --bg: #1a1a1a;\<newline>''
     @ ''        --fg: #e0e0e0;\<newline>''
     @ ''        --muted: #888;\<newline>''
     @ ''        --link: #6cf;\<newline>''
     @ ''        --accent: #e66;\<newline>''
     @ ''        --border: #444;\<newline>''
     @ ''        --green: #5a5;\<newline>''
     @ ''        --yellow: #ca3;\<newline>''
     @ ''        --red: #e55;\<newline>''
     @ ''      }\<newline>''
     @ ''    }\<newline>''
     @ ''    * { box-sizing: border-box; }\<newline>''
     @ ''    body {\<newline>''
     @ ''      font-family: ui-monospace, "Cascadia Code", "Source Code Pro", Menlo, Consolas, mo''
     @ ''nospace;\<newline>''
     @ ''      font-size: 14px;\<newline>''
     @ ''      line-height: 1.6;\<newline>''
     @ ''      background: var(--bg);\<newline>''
     @ ''      color: var(--fg);\<newline>''
     @ ''      max-width: 72ch;\<newline>''
     @ ''      margin: 0 auto;\<newline>''
     @ ''      padding: 2rem 1rem;\<newline>''
     @ ''    }\<newline>''
     @ ''    h1 { font-size: 1em; font-weight: bold; margin: 0 0 0.5rem 0; }\<newline>''
     @ ''    h2 { font-size: 1em; font-weight: bold; margin: 1.5rem 0 0.5rem 0; color: var(--acce''
     @ ''nt); }\<newline>''
     @ ''    p { margin: 0.5rem 0; }\<newline>''
     @ ''    a { color: var(--link); }\<newline>''
     @ ''    a:visited { color: var(--link); opacity: 0.8; }\<newline>''
     @ ''    .meta { color: var(--muted); }\<newline>''
     @ ''    .feeds { margin: 1rem 0; }\<newline>''
     @ ''    .feeds a { margin-right: 1.5em; }\<newline>''
     @ ''    ol { padding-left: 2.5em; margin: 0.5rem 0; }\<newline>''
     @ ''    li { padding: 0.15rem 0; }\<newline>''
     @ ''    .entry { display: block; white-space: nowrap; overflow: hidden; text-overflow: ellip''
     @ ''sis; }\<newline>''
     @ ''    .ok a { color: var(--green); }\<newline>''
     @ ''    .soon a { color: var(--yellow); }\<newline>''
     @ ''    .urgent a { color: var(--red); }\<newline>''
     @ ''  </style>\<newline>''
     @ ''</head>\<newline>''
     @ ''<body>\<newline>''
     @ ''  <h1>HUMBLE BUNDLE RSS FEEDS</h1>\<newline>''
     @ ''  <p>Unofficial RSS feeds for current Humble Bundle offerings.</p>\<newline>''
     @ ''\<newline>''
     @ ''  <h2>FEEDS</h2>\<newline>''
     @ ''  <div class="feeds">\<newline>''
     @ ''    <a target="_blank" href="/rss">/rss</a>\<newline>''
     @ ''    <a target="_blank" href="/games">/games</a>\<newline>''
     @ ''    <a target="_blank" href="/books">/books</a>\<newline>''
     @ ''    <a target="_blank" href="/software">/software</a>\<newline>''
     @ ''  </div>\<newline>''
     @ ''  <p class="meta">Add any feed URL to your RSS reader.</p>\<newline>''
     @ ''\<newline>''
     @ ''  <h2>CURRENT BUNDLES</h2>\<newline>''
     @ ''  <div data-nosnippet>\<newline>''
     @ ''    <ol>\<newline>''\<close>

definition homepageTail :: string where
  \<open>homepageTail =
     ''\<newline>''
     @ ''    </ol>\<newline>''
     @ ''  </div>\<newline>''
     @ ''\<newline>''
     @ ''  <p class="meta">Data from <a target="_blank" href="https://www.humblebundle.com/bundle''
     @ ''s">humblebundle.com</a></p>\<newline>''
     @ ''  <p class="meta">See <a target="_blank" href="https://github.com/zeen/humblebundle-rss"''
     @ ''>GitHub</a> for bug reports and pull requests.</p>\<newline>''
     @ ''</body>\<newline>''
     @ ''</html>''\<close>


text \<open>\<^verbatim>\<open>generateHomepage\<close> (lines 168-273); \<open>now\<close> is \<^verbatim>\<open>Date.now()\<close>.\<close>

definition generateHomepage :: "runtime \<Rightarrow> int \<Rightarrow> product list \<Rightarrow> string" where
  "generateHomepage rt now prods =
     (let feedItems = join ''\<newline>'' (map (homepageItem rt now) prods)
      in homepageHead @ feedItems @ homepageTail)"


text \<open>\<^verbatim>\<open>favicon\<close> (lines 295-299).\<close>

definition favicon :: string where
  \<open>favicon =
     ''<?xml version="1.0" encoding="UTF-8"?>\<newline>''
     @ ''<svg width="48" height="48" viewBox="0 0 1024 1024" version="1.1" xmlns="http://www.w3.o''
     @ ''rg/2000/svg">\<newline>''
     @ ''  <circle cx="50%" cy="50%" r="50%" fill="#D0011B"/>\<newline>''
     @ ''  <path transform="scale(0.7,0.7) translate(220, 225)" d="M765.201172,820.589844 C620.47''
     @ ''5426,820.589844 843.283203,0.189453125 843.283203,0.189453125 L694.142578,5.68434189e-14''
     @ '' C694.142578,5.68434189e-14 633.090481,193.090536 592.811289,407.652717 L464.271164,407.''
     @ ''652717 C467.639745,363.532521 469.262415,318.878282 468.522971,274.491064 C462.730655,-7''
     @ ''8.7375255 255.842002,-13.3140749 163.226562,67.7578125 C75.1710315,144.824375 1.42382812''
     @ '',291.240234 0,403.996094 C14.0273437,403.3125 69.4453125,403.074219 69.4453125,403.07421''
     @ ''9 C69.4453125,403.074219 115.528161,192.837891 260.253906,192.837891 C404.959112,192.837''
     @ ''891 181.810547,1013.25 181.810547,1013.25 L331.015625,1013.36133 C331.015625,1013.36133 ''
     @ ''408.132049,793.724753 446.480469,548.455078 L569.224609,547.75 C562.076645,611.218997 55''
     @ ''9.803302,681.30885 560.850849,746.400517 C566.663705,1099.62911 772.743935,1023.82674 86''
     @ ''5.359375,942.775391 C957.974815,861.703503 1027.08594,690.517578 1026.23242,608.322266 C''
     @ ''1026.3457,608.228516 955.882812,608.892578 955.037109,608.875 C955.279297,615.365234 909''
     @ ''.906377,820.589844 765.201172,820.589844 Z" fill="white"/>\<newline>''
     @ ''</svg>''\<close>

section \<open>HTTP server\<close>

text \<open>A \<^verbatim>\<open>Response\<close>: its status (200 where the constructor is given none), the headers
  the program sets, and its body.\<close>

record response =
  status :: nat
  headers :: "(string \<times> string) list"
  body :: string

text \<open>\<^verbatim>\<open>handleHomepage\<close> (lines 275-292). Rendering throws nothing, so the \<^verbatim>\<open>catch\<close> is
  reached from \<^verbatim>\<open>fetchBundles\<close> alone.\<close>

definition handleHomepage :: "runtime \<Rightarrow> int \<Rightarrow> upstream \<Rightarrow> response" where
  "handleHomepage rt now up =
     (case fetchBundles rt up of
        Inr prods \<Rightarrow>
          \<lparr>status = 200,
           headers = [(''Content-Type'', ''text/html; charset=utf-8''),
                      (''Cache-Control'', ''public, max-age=3600'')],
           body = generateHomepage rt now prods\<rparr>
      | Inl e \<Rightarrow>
          \<lparr>status = 500, headers = [(''Content-Type'', ''text/plain'')],
           body = ''Error: '' @ message rt e\<rparr>)"

text \<open>\<^verbatim>\<open>toUpperCase\<close> on the letters a to z, which is all the selectors hold.\<close>

definition upperChar :: "char \<Rightarrow> char" where
  "upperChar c =
     (case map_of (zip ''abcdefghijklmnopqrstuvwxyz'' ''ABCDEFGHIJKLMNOPQRSTUVWXYZ'') c of
        None \<Rightarrow> c
      | Some u \<Rightarrow> u)"

definition toUpperCase :: "string \<Rightarrow> string" where
  "toUpperCase s = map upperChar s"

text \<open>\<^verbatim>\<open>handleRssRequest\<close> (lines 305-336); \<open>category = None\<close> is the call without a
  category.\<close>

definition handleRssRequest :: "runtime \<Rightarrow> int \<Rightarrow> upstream \<Rightarrow> string \<Rightarrow> selector option \<Rightarrow> response" where
  "handleRssRequest rt now up canonicalUrl category =
     (case fetchBundles rt up of
        Inr fetched \<Rightarrow>
          (let (prods, title) =
                 (case category of
                    None \<Rightarrow> (fetched, ''Humble Bundle - All Bundles'')
                  | Some c \<Rightarrow>
                      (filterByCategory fetched c,
                       ''Humble Bundle - '' @ toUpperCase (take 1 (selectorString c))
                         @ drop 1 (selectorString c) @ '' Bundles''))
           in \<lparr>status = 200,
               headers = [(''Content-Type'', ''application/rss+xml; charset=utf-8''),
                          (''Cache-Control'', ''public, max-age=3600'')],
               body = generateRss rt now prods title canonicalUrl\<rparr>)
      | Inl e \<Rightarrow>
          \<lparr>status = 500, headers = [],
           body = ''Error generating RSS feed: '' @ message rt e\<rparr>)"


text \<open>The \<^verbatim>\<open>fetch\<close> handler of \<^verbatim>\<open>Bun.serve\<close> (lines 340-366), on the origin and the
  pathname of the request URL.\<close>

definition serve :: "runtime \<Rightarrow> int \<Rightarrow> upstream \<Rightarrow> string \<Rightarrow> string \<Rightarrow> response" where
  "serve rt now up origin path =
     (let canonicalUrl = origin @ path
      in if path = ''/'' then handleHomepage rt now up
         else if path = ''/rss'' then handleRssRequest rt now up canonicalUrl None
         else if path = ''/games'' then handleRssRequest rt now up canonicalUrl (Some Games)
         else if path = ''/books'' then handleRssRequest rt now up canonicalUrl (Some Books)
         else if path = ''/software'' then handleRssRequest rt now up canonicalUrl (Some Software)
         else if path = ''/favicon.ico'' then
           \<lparr>status = 200,
            headers = [(''Content-Type'', ''image/svg+xml''),
                       (''Cache-Control'', ''public, max-age=3600'')],
            body = favicon\<rparr>
         else \<lparr>status = 404, headers = [], body = ''Not Found''\<rparr>)"


section \<open>The specification's notions\<close>

text \<open>The encounter order of a payload: the categories books, games, software, an absent
  one contributing nothing; in a category its sections, in a section its products.\<close>

definition encounterOrder :: "landingData \<Rightarrow> product list" where
  "encounterOrder d =
     concat (map (\<lambda>c. case c of None \<Rightarrow> [] | Some cat \<Rightarrow> concat (map products (mosaic cat)))
       [books d, games d, software d])"

text \<open>The number of products of a payload, across its categories.\<close>

definition productCount :: "landingData \<Rightarrow> nat" where
  "productCount d =
     sum_list (map (\<lambda>c. case c of
                           None \<Rightarrow> 0
                         | Some cat \<Rightarrow> sum_list (map (\<lambda>s. length (products s)) (mosaic cat)))
       [books d, games d, software d])"

text \<open>\<open>startsBefore rt a b\<close>: both start dates parse, and that of \<open>a\<close> is the earlier.
  A list is in descending order of start when no item stands before one that starts
  later; an item whose start does not parse is bound by nothing.\<close>

definition startsBefore :: "runtime \<Rightarrow> product \<Rightarrow> product \<Rightarrow> bool" where
  "startsBefore rt a b =
     (case (dateParse rt (start_date_datetime a), dateParse rt (start_date_datetime b)) of
        (Some x, Some y) \<Rightarrow> x < y
      | _ \<Rightarrow> False)"

definition startDescending :: "runtime \<Rightarrow> product list \<Rightarrow> bool" where
  "startDescending rt ps = sorted_wrt (\<lambda>a b. \<not> startsBefore rt a b) ps"

text \<open>The sort key that the comparator of \<^const>\<open>compareStart\<close> amounts to on dates that
  parse: the negated time value.\<close>

definition descendingKey :: "runtime \<Rightarrow> product \<Rightarrow> int" where
  "descendingKey rt p = (case dateParse rt (start_date_datetime p) of None \<Rightarrow> 0 | Some t \<Rightarrow> - t)"

text \<open>The titles of the four feeds.\<close>

fun feedTitle :: "selector option \<Rightarrow> string" where
  "feedTitle None = ''Humble Bundle - All Bundles''"
| "feedTitle (Some Games) = ''Humble Bundle - Games Bundles''"
| "feedTitle (Some Books) = ''Humble Bundle - Books Bundles''"
| "feedTitle (Some Software) = ''Humble Bundle - Software Bundles''"

text \<open>The value at a path of a parsed JSON value, if the path leads to one.\<close>

fun jsonGet :: "seg list \<Rightarrow> json \<Rightarrow> json option" where
  "jsonGet [] j = Some j"
| "jsonGet (Key k # p) (JObject kvs) =
     (case map_of kvs k of None \<Rightarrow> None | Some v \<Rightarrow> jsonGet p v)"
| "jsonGet (Index i # p) (JArray xs) = (if i < length xs then jsonGet p (xs ! i) else None)"
| "jsonGet (s # p) j = None"

text \<open>A product object violates the schema in the field \<open>f\<close>: \<open>f\<close> is one of the eight
  required fields and is missing or not a string, or it is the image URL and a string
  that is not a URL.\<close>

definition fieldViolation :: "runtime \<Rightarrow> (string \<times> json) list \<Rightarrow> string \<Rightarrow> bool" where
  "fieldViolation rt kvs f =
     (f \<in> set [''machine_name'', ''tile_name'', ''product_url'', ''detailed_marketing_blurb'',
                ''tile_image'', ''start_date|datetime'', ''end_date|datetime'', ''tile_stamp'']
      \<and> (case map_of kvs f of
            Some (JString s) \<Rightarrow> f = ''tile_image'' \<and> \<not> isUrl rt s
          | _ \<Rightarrow> True))"

text \<open>The category of validated data under one of the three keys.\<close>

definition categoryAt :: "string \<Rightarrow> landingData \<Rightarrow> category option" where
  "categoryAt c d =
     (if c = ''books'' then books d else if c = ''games'' then games d else software d)"

text \<open>A validation fails with an issue at the path \<open>p\<close>; and: all the issues of a
  validation, if it fails, lie at or below the path \<open>p\<close>.\<close>

definition rejectsAt :: "'a validation \<Rightarrow> seg list \<Rightarrow> bool" where
  "rejectsAt r p = (case r of Inl issues \<Rightarrow> p \<in> issuePath ` set issues | Inr x \<Rightarrow> False)"

definition issuesUnder :: "seg list \<Rightarrow> 'a validation \<Rightarrow> bool" where
  "issuesUnder p r =
     (case r of Inl issues \<Rightarrow> list_all (\<lambda>i. prefix p (issuePath i)) issues | Inr x \<Rightarrow> True)"


section \<open>Example inputs\<close>

text \<open>Products, the payloads that hold them as \<^verbatim>\<open>JSON.parse\<close> returns them, and their
  JSON texts.\<close>

definition sku1 :: product where
  \<open>sku1 =
     \<lparr>machine_name = ''sku1'', tile_name = ''Cool & Fun Game'', product_url = ''/games/sku1'',
      detailed_marketing_blurb = ''Five games'',
      tile_image = ''https://img.example/sku1.png'',
      start_date_datetime = ''2024-01-01T00:00:00Z'', end_date_datetime = ''2024-01-10T00:00:00Z'',
      tile_stamp = ''games''\<rparr>\<close>

definition bk1 :: product where
  \<open>bk1 =
     \<lparr>machine_name = ''bk1'', tile_name = ''Books One'', product_url = ''/books/bk1'',
      detailed_marketing_blurb = ''Nine books'',
      tile_image = ''https://img.example/bk1.png'',
      start_date_datetime = ''2024-01-05T00:00:00Z'', end_date_datetime = ''2024-01-10T00:00:00Z'',
      tile_stamp = ''books''\<rparr>\<close>

definition gm2 :: product where
  \<open>gm2 =
     \<lparr>machine_name = ''gm2'', tile_name = ''Games Two'', product_url = ''/games/gm2'',
      detailed_marketing_blurb = ''Seven games'',
      tile_image = ''https://img.example/gm2.png'',
      start_date_datetime = ''2024-01-10T00:00:00Z'', end_date_datetime = ''2024-01-10T00:00:00Z'',
      tile_stamp = ''games''\<rparr>\<close>

definition gm3 :: product where
  \<open>gm3 =
     \<lparr>machine_name = ''gm3'', tile_name = ''Games Three'', product_url = ''/games/gm3'',
      detailed_marketing_blurb = ''Three games'',
      tile_image = ''https://img.example/gm3.png'',
      start_date_datetime = ''2024-01-05T00:00:00Z'', end_date_datetime = ''2024-01-10T00:00:00Z'',
      tile_stamp = ''games''\<rparr>\<close>

definition tba1 :: product where
  \<open>tba1 =
     \<lparr>machine_name = ''tba1'', tile_name = ''Coming'', product_url = ''/games/tba1'',
      detailed_marketing_blurb = ''Soon'',
      tile_image = ''https://img.example/tba1.png'',
      start_date_datetime = ''TBA'', end_date_datetime = ''2024-01-10T00:00:00Z'',
      tile_stamp = ''games''\<rparr>\<close>

definition old1 :: product where
  \<open>old1 =
     \<lparr>machine_name = ''old1'', tile_name = ''Older'', product_url = ''/games/old1'',
      detailed_marketing_blurb = ''Old'',
      tile_image = ''https://img.example/old1.png'',
      start_date_datetime = ''2024-01-01T00:00:00Z'', end_date_datetime = ''2024-01-10T00:00:00Z'',
      tile_stamp = ''games''\<rparr>\<close>

definition tba2 :: product where
  \<open>tba2 =
     \<lparr>machine_name = ''tba2'', tile_name = ''Coming Too'', product_url = ''/games/tba2'',
      detailed_marketing_blurb = ''Soon'',
      tile_image = ''https://img.example/tba2.png'',
      start_date_datetime = ''TBA'', end_date_datetime = ''2024-01-10T00:00:00Z'',
      tile_stamp = ''games''\<rparr>\<close>

definition new1 :: product where
  \<open>new1 =
     \<lparr>machine_name = ''new1'', tile_name = ''Newer'', product_url = ''/games/new1'',
      detailed_marketing_blurb = ''New'',
      tile_image = ''https://img.example/new1.png'',
      start_date_datetime = ''2024-01-05T00:00:00Z'', end_date_datetime = ''2024-01-10T00:00:00Z'',
      tile_stamp = ''games''\<rparr>\<close>

definition untitledFields :: "(string \<times> json) list" where
  \<open>untitledFields =
     [(''machine_name'', JString ''sku1''), (''product_url'', JString ''/games/sku1''),
     (''detailed_marketing_blurb'', JString ''Five games''), (''tile_image'',
     JString ''https://img.example/sku1.png''), (''start_date|datetime'',
     JString ''2024-01-01T00:00:00Z''), (''end_date|datetime'',
     JString ''2024-01-10T00:00:00Z''), (''tile_stamp'', JString ''games'')]\<close>

definition tieDataFields :: "(string \<times> json) list" where
  \<open>tieDataFields =
     [(''books'', JObject [(''mosaic'', JArray [JObject [(''products'',
     JArray [JObject [(''machine_name'', JString ''bk1''), (''tile_name'',
     JString ''Books One''), (''product_url'', JString ''/books/bk1''),
     (''detailed_marketing_blurb'', JString ''Nine books''), (''tile_image'',
     JString ''https://img.example/bk1.png''), (''start_date|datetime'',
     JString ''2024-01-05T00:00:00Z''), (''end_date|datetime'',
     JString ''2024-01-10T00:00:00Z''), (''tile_stamp'', JString ''books'')]])]])]),
     (''games'', JObject [(''mosaic'', JArray [JObject [(''products'',
     JArray [JObject [(''machine_name'', JString ''gm2''), (''tile_name'',
     JString ''Games Two''), (''product_url'', JString ''/games/gm2''),
     (''detailed_marketing_blurb'', JString ''Seven games''), (''tile_image'',
     JString ''https://img.example/gm2.png''), (''start_date|datetime'',
     JString ''2024-01-10T00:00:00Z''), (''end_date|datetime'',
     JString ''2024-01-10T00:00:00Z''), (''tile_stamp'', JString ''games'')]])],
     JObject [(''products'', JArray [JObject [(''machine_name'', JString ''gm3''),
     (''tile_name'', JString ''Games Three''), (''product_url'', JString ''/games/gm3''),
     (''detailed_marketing_blurb'', JString ''Three games''), (''tile_image'',
     JString ''https://img.example/gm3.png''), (''start_date|datetime'',
     JString ''2024-01-05T00:00:00Z''), (''end_date|datetime'',
     JString ''2024-01-10T00:00:00Z''), (''tile_stamp'', JString ''games'')]])]])])]\<close>

definition onePayload :: json where
  \<open>onePayload =
     JObject [(''data'', JObject [(''games'', JObject [(''mosaic'',
     JArray [JObject [(''products'', JArray [JObject [(''machine_name'',
     JString ''sku1''), (''tile_name'', JString ''Cool & Fun Game''), (''product_url'',
     JString ''/games/sku1''), (''detailed_marketing_blurb'', JString ''Five games''),
     (''tile_image'', JString ''https://img.example/sku1.png''), (''start_date|datetime'',
     JString ''2024-01-01T00:00:00Z''), (''end_date|datetime'',
     JString ''2024-01-10T00:00:00Z''), (''tile_stamp'', JString ''games'')]])]])])])]\<close>

definition onePayloadText :: string where
  \<open>onePayloadText =
     ''{"data":{"games":{"mosaic":[{"products":[{"machine_name":"sku1","tile_name":"Coo''
     @ ''l & Fun Game","product_url":"/games/sku1","detailed_marketing_blurb":"Five games''
     @ ''","tile_image":"https://img.example/sku1.png","start_date|datetime":"2024-01-01T''
     @ ''00:00:00Z","end_date|datetime":"2024-01-10T00:00:00Z","tile_stamp":"games"}]}]}}''
     @ ''}''\<close>

definition tiePayload :: json where
  \<open>tiePayload =
     JObject [(''data'', JObject tieDataFields)]\<close>

definition tiePayloadText :: string where
  \<open>tiePayloadText =
     ''{"data":{"books":{"mosaic":[{"products":[{"machine_name":"bk1","tile_name":"Book''
     @ ''s One","product_url":"/books/bk1","detailed_marketing_blurb":"Nine books","tile_''
     @ ''image":"https://img.example/bk1.png","start_date|datetime":"2024-01-05T00:00:00Z''
     @ ''","end_date|datetime":"2024-01-10T00:00:00Z","tile_stamp":"books"}]}]},"games":{''
     @ ''"mosaic":[{"products":[{"machine_name":"gm2","tile_name":"Games Two","product_ur''
     @ ''l":"/games/gm2","detailed_marketing_blurb":"Seven games","tile_image":"https://i''
     @ ''mg.example/gm2.png","start_date|datetime":"2024-01-10T00:00:00Z","end_date|datet''
     @ ''ime":"2024-01-10T00:00:00Z","tile_stamp":"games"}]},{"products":[{"machine_name"''
     @ '':"gm3","tile_name":"Games Three","product_url":"/games/gm3","detailed_marketing_''
     @ ''blurb":"Three games","tile_image":"https://img.example/gm3.png","start_date|date''
     @ ''time":"2024-01-05T00:00:00Z","end_date|datetime":"2024-01-10T00:00:00Z","tile_st''
     @ ''amp":"games"}]}]}}}''\<close>

definition unparsedPayload :: json where
  \<open>unparsedPayload =
     JObject [(''data'', JObject [(''games'', JObject [(''mosaic'',
     JArray [JObject [(''products'', JArray [JObject [(''machine_name'',
     JString ''old1''), (''tile_name'', JString ''Older''), (''product_url'',
     JString ''/games/old1''), (''detailed_marketing_blurb'', JString ''Old''),
     (''tile_image'', JString ''https://img.example/old1.png''), (''start_date|datetime'',
     JString ''2024-01-01T00:00:00Z''), (''end_date|datetime'',
     JString ''2024-01-10T00:00:00Z''), (''tile_stamp'', JString ''games'')],
     JObject [(''machine_name'', JString ''tba1''), (''tile_name'', JString ''Coming''),
     (''product_url'', JString ''/games/tba1''), (''detailed_marketing_blurb'',
     JString ''Soon''), (''tile_image'', JString ''https://img.example/tba1.png''),
     (''start_date|datetime'', JString ''TBA''), (''end_date|datetime'',
     JString ''2024-01-10T00:00:00Z''), (''tile_stamp'', JString ''games'')],
     JObject [(''machine_name'', JString ''new1''), (''tile_name'', JString ''Newer''),
     (''product_url'', JString ''/games/new1''), (''detailed_marketing_blurb'',
     JString ''New''), (''tile_image'', JString ''https://img.example/new1.png''),
     (''start_date|datetime'', JString ''2024-01-05T00:00:00Z''), (''end_date|datetime'',
     JString ''2024-01-10T00:00:00Z''), (''tile_stamp'', JString ''games'')]])]])])])]\<close>

definition unparsedPayloadText :: string where
  \<open>unparsedPayloadText =
     ''{"data":{"games":{"mosaic":[{"products":[{"machine_name":"old1","tile_name":"Old''
     @ ''er","product_url":"/games/old1","detailed_marketing_blurb":"Old","tile_image":"h''
     @ ''ttps://img.example/old1.png","start_date|datetime":"2024-01-01T00:00:00Z","end_d''
     @ ''ate|datetime":"2024-01-10T00:00:00Z","tile_stamp":"games"},{"machine_name":"tba1''
     @ ''","tile_name":"Coming","product_url":"/games/tba1","detailed_marketing_blurb":"S''
     @ ''oon","tile_image":"https://img.example/tba1.png","start_date|datetime":"TBA","en''
     @ ''d_date|datetime":"2024-01-10T00:00:00Z","tile_stamp":"games"},{"machine_name":"n''
     @ ''ew1","tile_name":"Newer","product_url":"/games/new1","detailed_marketing_blurb":''
     @ ''"New","tile_image":"https://img.example/new1.png","start_date|datetime":"2024-01''
     @ ''-05T00:00:00Z","end_date|datetime":"2024-01-10T00:00:00Z","tile_stamp":"games"}]''
     @ ''}]}}}''\<close>

definition brokenPayload :: json where
  \<open>brokenPayload =
     JObject [(''data'', JObject [(''games'', JObject [(''mosaic'',
     JArray [JObject [(''products'', JArray [JObject [(''machine_name'',
     JString ''sku1''), (''tile_name'', JString ''Cool & Fun Game''), (''product_url'',
     JString ''/games/sku1''), (''detailed_marketing_blurb'', JString ''Five games''),
     (''tile_image'', JString ''https://img.example/sku1.png''), (''start_date|datetime'',
     JString ''2024-01-01T00:00:00Z''), (''end_date|datetime'',
     JString ''2024-01-10T00:00:00Z''), (''tile_stamp'', JString ''games'')],
     JObject untitledFields])]])])])]\<close>

definition brokenPayloadText :: string where
  \<open>brokenPayloadText =
     ''{"data":{"games":{"mosaic":[{"products":[{"machine_name":"sku1","tile_name":"Coo''
     @ ''l & Fun Game","product_url":"/games/sku1","detailed_marketing_blurb":"Five games''
     @ ''","tile_image":"https://img.example/sku1.png","start_date|datetime":"2024-01-01T''
     @ ''00:00:00Z","end_date|datetime":"2024-01-10T00:00:00Z","tile_stamp":"games"},{"ma''
     @ ''chine_name":"sku1","product_url":"/games/sku1","detailed_marketing_blurb":"Five ''
     @ ''games","tile_image":"https://img.example/sku1.png","start_date|datetime":"2024-0''
     @ ''1-01T00:00:00Z","end_date|datetime":"2024-01-10T00:00:00Z","tile_stamp":"games"}''
     @ '']}]}}}''\<close>

text \<open>The three valid payloads as validation returns them.\<close>

definition onePage :: landingPage where
  "onePage =
     \<lparr>data = \<lparr>books = None, games = Some \<lparr>mosaic = [\<lparr>products = [sku1]\<rparr>]\<rparr>,
              software = None\<rparr>\<rparr>"

definition tiePage :: landingPage where
  "tiePage =
     \<lparr>data = \<lparr>books = Some \<lparr>mosaic = [\<lparr>products = [bk1]\<rparr>]\<rparr>,
              games = Some \<lparr>mosaic = [\<lparr>products = [gm2]\<rparr>, \<lparr>products = [gm3]\<rparr>]\<rparr>,
              software = None\<rparr>\<rparr>"

definition unparsedPage :: landingPage where
  "unparsedPage =
     \<lparr>data = \<lparr>books = None,
              games = Some \<lparr>mosaic = [\<lparr>products = [old1, tba1, new1]\<rparr>]\<rparr>,
              software = None\<rparr>\<rparr>"

text \<open>A runtime for the examples: three dates that parse and their two printed forms,
  the JSON texts above, \<^verbatim>\<open>https\<close> URLs, and a message that counts the issues.\<close>

definition exampleDates :: "string \<Rightarrow> int option" where
  "exampleDates str =
     (if str = ''2024-01-01T00:00:00Z'' then Some 1704067200000
      else if str = ''2024-01-05T00:00:00Z'' then Some 1704412800000
      else if str = ''2024-01-10T00:00:00Z'' then Some 1704844800000
      else None)"

definition exampleUTC :: "int option \<Rightarrow> string" where
  "exampleUTC t =
     (if t = Some 1704067200000 then ''Mon, 01 Jan 2024 00:00:00 GMT''
      else if t = Some 1704412800000 then ''Fri, 05 Jan 2024 00:00:00 GMT''
      else if t = Some 1704844800000 then ''Wed, 10 Jan 2024 00:00:00 GMT''
      else ''Invalid Date'')"

definition exampleLocale :: "int option \<Rightarrow> string" where
  "exampleLocale t =
     (if t = Some 1704067200000 then ''January 1, 2024''
      else if t = Some 1704412800000 then ''January 5, 2024''
      else if t = Some 1704844800000 then ''January 10, 2024''
      else ''Invalid Date'')"

definition exampleJson :: "string \<Rightarrow> string + json" where
  "exampleJson str =
     (if str = onePayloadText then Inr onePayload
      else if str = tiePayloadText then Inr tiePayload
      else if str = unparsedPayloadText then Inr unparsedPayload
      else if str = brokenPayloadText then Inr brokenPayload
      else Inl ''JSON Parse error: Unexpected identifier'')"

definition exampleRuntime :: runtime where
  "exampleRuntime =
     \<lparr>dateParse = exampleDates, toUTCString = exampleUTC, toLocaleDateString = exampleLocale,
      jsonParse = exampleJson, isUrl = prefix ''https://'',
      zodMessage = (\<lambda>issues. decimal (length issues) @ '' issue(s)'')\<rparr>"

text \<open>The page that carries a JSON text in the marked script element, answered with
  status 200.\<close>

definition pageWith :: "string \<Rightarrow> upstream" where
  "pageWith payloadText =
     Responded 200
       (Inr (''<html><body>'' @ scriptOpen @ payloadText @ scriptClose @ ''</body></html>''))"


section \<open>The extractor\<close>

lemma findFirst_sound: "findFirst needle s = Some (b, a) \<Longrightarrow> s = b @ needle @ a"
proof (induction s arbitrary: b)
  case Nil
  then show ?case by (simp split: if_splits)
next
  case (Cons c cs)
  show ?case
  proof (cases "prefix needle (c # cs)")
    case True
    with Cons.prems have "b = []" and "a = drop (length needle) (c # cs)" by simp_all
    moreover from True obtain r where "c # cs = needle @ r" by (auto elim: prefixE)
    ultimately show ?thesis by simp
  next
    case False
    with Cons.prems obtain b' where "findFirst needle cs = Some (b', a)" and "b = c # b'"
      by (auto split: option.splits)
    with Cons.IH show ?thesis by simp
  qed
qed

lemma findFirst_complete: "findFirst needle (b @ needle @ a) \<noteq> None"
proof (induction b)
  case Nil
  show ?case
  proof (cases "needle @ a")
    case Nil
    then show ?thesis by simp
  next
    case (Cons x xs)
    have "prefix needle (needle @ a)" by simp
    with Cons have "prefix needle (x # xs)" by simp
    with Cons show ?thesis by simp
  qed
next
  case (Cons c b)
  then show ?case by (auto split: option.splits)
qed

lemma findFirst_past:
  "c \<notin> set pre \<Longrightarrow> findFirst (c # n) (pre @ (c # n) @ post) = Some (pre, post)"
  by (induction pre) simp_all

lemma matchScriptTag_decomposes:
  assumes "matchScriptTag html = Some inner"
  shows "\<exists>before after. html = before @ scriptOpen @ inner @ scriptClose @ after"
proof -
  from assms obtain before rest after
    where "findFirst scriptOpen html = Some (before, rest)"
      and "findFirst scriptClose rest = Some (inner, after)"
    by (auto simp: matchScriptTag_def split: option.splits)
  then have "html = before @ scriptOpen @ rest" and "rest = inner @ scriptClose @ after"
    by (auto dest: findFirst_sound)
  then show ?thesis by blast
qed

lemma findFirst_scriptOpen_page:
  "findFirst scriptOpen (''<html><body>'' @ scriptOpen @ rest) = Some (''<html><body>'', rest)"
  by (simp add: scriptOpen_def)

lemma matchScriptTag_page:
  assumes "CHR ''<'' \<notin> set payloadText"
  shows "matchScriptTag (''<html><body>'' @ scriptOpen @ payloadText @ scriptClose @ ''</body></html>'')
    = Some payloadText"
proof -
  have "findFirst scriptClose (payloadText @ scriptClose @ ''</body></html>'')
      = Some (payloadText, ''</body></html>'')"
    unfolding scriptClose_def using assms by (rule findFirst_past)
  then show ?thesis
    unfolding matchScriptTag_def by (simp only: findFirst_scriptOpen_page option.case prod.case)
qed

lemma fetchPayload_pageWith:
  assumes "CHR ''<'' \<notin> set payloadText" and "payloadText \<noteq> []"
    and "jsonParse rt payloadText = Inr rawData"
  shows "fetchPayload rt (pageWith payloadText) =
    (case LandingPageSchema rt [] (Some rawData) of
       Inl issues \<Rightarrow> Inl (ZodError issues)
     | Inr validated \<Rightarrow> Inr validated)"
proof -
  have "matchScriptTag (''<html><body>'' @ scriptOpen @ payloadText @ scriptClose @ ''</body></html>'')
      = Some payloadText"
    using assms(1) by (rule matchScriptTag_page)
  then show ?thesis
    unfolding fetchPayload_def pageWith_def using assms(2,3) by simp
qed


section \<open>The example inputs evaluated\<close>

lemmas schema_defs =
  LandingPageSchema_def DataSchema_def CategorySchema_def SectionSchema_def ProductSchema_def
  zOptional_def zArray_def zString_def zUrl_def

lemma example_texts_distinct:
  "distinct [onePayloadText, tiePayloadText, unparsedPayloadText, brokenPayloadText]"
  by (simp add: onePayloadText_def tiePayloadText_def unparsedPayloadText_def
      brokenPayloadText_def)

lemma example_texts_plain:
  "CHR ''<'' \<notin> set onePayloadText" "onePayloadText \<noteq> []"
  "CHR ''<'' \<notin> set tiePayloadText" "tiePayloadText \<noteq> []"
  "CHR ''<'' \<notin> set unparsedPayloadText" "unparsedPayloadText \<noteq> []"
  "CHR ''<'' \<notin> set brokenPayloadText" "brokenPayloadText \<noteq> []"
  by (simp_all add: onePayloadText_def tiePayloadText_def unparsedPayloadText_def
      brokenPayloadText_def)

lemma exampleJson_texts:
  "jsonParse exampleRuntime onePayloadText = Inr onePayload"
  "jsonParse exampleRuntime tiePayloadText = Inr tiePayload"
  "jsonParse exampleRuntime unparsedPayloadText = Inr unparsedPayload"
  "jsonParse exampleRuntime brokenPayloadText = Inr brokenPayload"
  using example_texts_distinct by (auto simp add: exampleRuntime_def exampleJson_def)

lemma validate_onePayload: "LandingPageSchema exampleRuntime [] (Some onePayload) = Inr onePage"
  by (simp add: onePayload_def onePage_def schema_defs sku1_def exampleRuntime_def)

lemma validate_tiePayload: "LandingPageSchema exampleRuntime [] (Some tiePayload) = Inr tiePage"
  by (simp add: tiePayload_def tieDataFields_def tiePage_def schema_defs bk1_def gm2_def gm3_def
      exampleRuntime_def)

lemma validate_unparsedPayload:
  "LandingPageSchema exampleRuntime [] (Some unparsedPayload) = Inr unparsedPage"
  by (simp add: unparsedPayload_def unparsedPage_def schema_defs tba1_def old1_def new1_def
      exampleRuntime_def)

lemma validate_brokenPayload:
  "LandingPageSchema exampleRuntime [] (Some brokenPayload) =
     Inl [Issue invalid_type [Key ''data'', Key ''games'', Key ''mosaic'', Index 0,
            Key ''products'', Index 1, Key ''tile_name'']]"
  by (simp add: brokenPayload_def untitledFields_def schema_defs exampleRuntime_def)

lemma fetchPayload_examples:
  "fetchPayload exampleRuntime (pageWith onePayloadText) = Inr onePage"
  "fetchPayload exampleRuntime (pageWith tiePayloadText) = Inr tiePage"
  "fetchPayload exampleRuntime (pageWith unparsedPayloadText) = Inr unparsedPage"
  "fetchPayload exampleRuntime (pageWith brokenPayloadText) =
     Inl (ZodError [Issue invalid_type [Key ''data'', Key ''games'', Key ''mosaic'', Index 0,
                      Key ''products'', Index 1, Key ''tile_name'']])"
  by (simp_all add: fetchPayload_pageWith [OF example_texts_plain(1,2) exampleJson_texts(1)]
      fetchPayload_pageWith [OF example_texts_plain(3,4) exampleJson_texts(2)]
      fetchPayload_pageWith [OF example_texts_plain(5,6) exampleJson_texts(3)]
      fetchPayload_pageWith [OF example_texts_plain(7,8) exampleJson_texts(4)]
      validate_onePayload validate_tiePayload validate_unparsedPayload validate_brokenPayload)

lemma example_starts:
  "dateParse exampleRuntime (start_date_datetime sku1) = Some 1704067200000"
  "dateParse exampleRuntime (start_date_datetime bk1) = Some 1704412800000"
  "dateParse exampleRuntime (start_date_datetime gm2) = Some 1704844800000"
  "dateParse exampleRuntime (start_date_datetime gm3) = Some 1704412800000"
  "dateParse exampleRuntime (start_date_datetime tba1) = None"
  "dateParse exampleRuntime (start_date_datetime old1) = Some 1704067200000"
  "dateParse exampleRuntime (start_date_datetime tba2) = None"
  "dateParse exampleRuntime (start_date_datetime new1) = Some 1704412800000"
  by (simp_all add: exampleRuntime_def exampleDates_def sku1_def bk1_def gm2_def gm3_def
      tba1_def old1_def tba2_def new1_def)

lemma example_stamps:
  "tile_stamp sku1 = ''games''" "tile_stamp bk1 = ''books''" "tile_stamp gm2 = ''games''"
  "tile_stamp gm3 = ''games''"
  by (simp_all add: sku1_def bk1_def gm2_def gm3_def)


section \<open>Escaping is character by character\<close>

lemma replaceAll_append: "replaceAll c r (xs @ ys) = replaceAll c r xs @ replaceAll c r ys"
  by (induction xs) simp_all

lemma escapeXml_Cons: "escapeXml (x # xs) = xmlEntity x @ escapeXml xs"
  by (simp add: escapeXml_def xmlEntity_def replaceAll_append)

lemma escapeXml_xmlEscaped: "escapeXml str = xmlEscaped str"
proof (induction str)
  case Nil
  show ?case by (simp add: escapeXml_def xmlEscaped_def)
next
  case (Cons x xs)
  then show ?case by (simp add: escapeXml_Cons xmlEscaped_def)
qed



text \<open>
  Claim C4. In every entry of the feed the title, the link (the product path joined to the
  origin), the guid (the machine name) and the category (the tag) stand in their
  five-character-escaped form, each of \<^verbatim>\<open>& < > " '\<close> replaced by its entity and nothing
  else changed; the image URL and the long description stand inside the CDATA wrapper as
  they are. The entries are the feed's items, one for each product, in order. The third
  part is the title of the specification's example.
\<close>

theorem feed_escapes_xml_positions:
  \<open>rssItem rt p =
     ''    <item>\<newline>      <title>'' @ xmlEscaped (tile_name p) @ ''</title>\<newline>      <link>''
     @ xmlEscaped (''https://www.humblebundle.com'' @ product_url p)
     @ ''</link>\<newline>      <description><![CDATA[<img src="'' @ tile_image p @ ''" /><br/><br/>''
     @ detailed_marketing_blurb p @ ''<br/><br/><strong>Ends:</strong> ''
     @ toLocaleDateString rt (dateParse rt (end_date_datetime p))
     @ '']]></description>\<newline>      <pubDate>''
     @ toUTCString rt (dateParse rt (start_date_datetime p))
     @ ''</pubDate>\<newline>      <guid isPermaLink="false">'' @ xmlEscaped (machine_name p)
     @ ''</guid>\<newline>      <category>'' @ xmlEscaped (tile_stamp p) @ ''</category>\<newline>    </item>''
   \<and> generateRss rt now prods title canonicalUrl =
     ''<?xml version="1.0" encoding="UTF-8"?>\<newline><rss version="2.0" xmlns:atom="http://www.w3.org/2005/Atom">\<newline>  <channel>\<newline>    <title>''
     @ xmlEscaped title
     @ ''</title>\<newline>    <link>https://www.humblebundle.com/bundles</link>\<newline>    <description>Current bundles available on Humble Bundle</description>\<newline>    <language>en-us</language>\<newline>    <lastBuildDate>''
     @ toUTCString rt (Some now) @ ''</lastBuildDate>\<newline>    <atom:link href="'' @ canonicalUrl
     @ ''" rel="self" type="application/rss+xml"/>\<newline>'' @ join ''\<newline>'' (map (rssItem rt) prods)
     @ ''\<newline>  </channel>\<newline></rss>''
   \<and> escapeXml (''a<b>&"c"&'' @ [CHR 0x27] @ ''d'' @ [CHR 0x27])
       = ''a&lt;b&gt;&amp;&quot;c&quot;&amp;&apos;d&apos;''\<close>
proof (intro conjI)
  show \<open>escapeXml (''a<b>&"c"&'' @ [CHR 0x27] @ ''d'' @ [CHR 0x27])
       = ''a&lt;b&gt;&amp;&quot;c&quot;&amp;&apos;d&apos;''\<close>
    by (simp add: escapeXml_def)
qed (simp_all add: rssItem_def generateRss_def HUMBLE_BUNDLES_URL_def escapeXml_xmlEscaped)


section \<open>Urgency tiers\<close>

lemma statusClass_tiers:
  "statusClass (Some h) =
     (if 0 < h \<and> h \<le> 24 then ''urgent'' else if h \<le> 168 then ''soon'' else ''ok'')"
  by (simp add: statusClass_def)

lemma statusClass_NaN: "statusClass None = ''ok''"
  by (simp add: statusClass_def)

text \<open>
  Claim C1. The claim has an item that has already ended classified \<^verbatim>\<open>ok\<close>. The product
  \<^const>\<open>sku1\<close> ends on 2024-01-10 at 00:00 UTC; rendered one hour later it has \<open>-1\<close>
  hours left, fails the test \<^verbatim>\<open>hoursLeft > 0\<close> of the first branch, passes
  \<^verbatim>\<open>hoursLeft <= 168\<close> of the second, and its list item is given the class \<^verbatim>\<open>soon\<close>.
\<close>

theorem ended_item_is_classified_soon:
  \<open>hoursLeft (dateParse exampleRuntime (end_date_datetime sku1)) (1704844800000 + 3600000)
     = Some (- 1)
   \<and> statusClass (Some (- 1)) = ''soon''
   \<and> homepageItem exampleRuntime (1704844800000 + 3600000) sku1 =
       ''      <li><span class="entry soon"><span class="cat">[games]</span> ''
       @ ''<a href="https://www.humblebundle.com/games/sku1" title="Cool &amp; Fun Game" ''
       @ ''target="_blank" rel="noopener noreferrer nofollow">Cool &amp; Fun Game</a></span></li>''\<close>
  by (simp add: hoursLeft_def statusClass_def homepageItem_def escapeHtml_def sku1_def
      exampleRuntime_def exampleDates_def)


section \<open>Flattening\<close>

lemma foldl_push_products:
  "foldl (\<lambda>acc' sec. acc' @ products sec) acc secs = acc @ concat (map products secs)"
  by (induction secs arbitrary: acc) simp_all

lemma collectProducts_encounterOrder: "collectProducts d = encounterOrder d"
  by (simp add: collectProducts_def encounterOrder_def foldl_push_products split: option.splits)

lemma length_encounterOrder: "length (encounterOrder d) = productCount d"
  by (simp add: encounterOrder_def productCount_def length_concat comp_def split: option.splits)


section \<open>Sorting\<close>

lemma mset_insertSorted: "mset (insertSorted comparefn before v) = add_mset v (mset before)"
proof -
  have "mset (take n before) + mset (drop n before) = mset before" for n
    by (metis append_take_drop_id mset_append)
  then have "mset (take n before @ v # drop n before) = add_mset v (mset before)" for n
    by simp
  then show ?thesis by (simp add: insertSorted_def Let_def)
qed

lemma mset_foldl_insertSorted:
  "mset (foldl (insertSorted comparefn) acc xs) = mset acc + mset xs"
  by (induction xs arbitrary: acc) (simp_all add: mset_insertSorted)

lemma mset_arraySort: "mset (arraySort comparefn xs) = mset xs"
  by (simp add: arraySort_def mset_foldl_insertSorted)

lemma length_arraySort: "length (arraySort comparefn xs) = length xs"
  using mset_arraySort [of comparefn xs] by (metis size_mset)

lemma arraySort_single: "arraySort comparefn [x] = [x]"
  by (simp add: arraySort_def insertSorted_def searchInsert.simps)

text \<open>Where the comparator is the order of a key \<open>f\<close> and the list is sorted by it, the
  binary search finds the position behind the last element that is not greater.\<close>

lemma searchInsert_bounds:
  fixes f :: "'a \<Rightarrow> 'b :: linorder"
  shows "sorted (map f before)
    \<Longrightarrow> (\<And>t. t \<in> set before \<Longrightarrow> (sortCompare comparefn v t < 0) = (f v < f t))
    \<Longrightarrow> left \<le> right \<Longrightarrow> right \<le> length before
    \<Longrightarrow> (\<forall>i<left. f (before ! i) \<le> f v)
    \<Longrightarrow> (\<forall>i. right \<le> i \<longrightarrow> i < length before \<longrightarrow> f v < f (before ! i))
    \<Longrightarrow> searchInsert comparefn v before left right \<le> length before
      \<and> (\<forall>i<searchInsert comparefn v before left right. f (before ! i) \<le> f v)
      \<and> (\<forall>i. searchInsert comparefn v before left right \<le> i \<longrightarrow> i < length before
             \<longrightarrow> f v < f (before ! i))"
proof (induction comparefn v before left right rule: searchInsert.induct)
  case (1 comparefn v before left right)
  show ?case
  proof (cases "left < right")
    case False
    with "1.prems"(3) have "left = right" by simp
    moreover have "searchInsert comparefn v before left right = left"
      using False by (subst searchInsert.simps) simp
    ultimately show ?thesis using "1.prems"(4-6) by simp
  next
    case True
    define m where "m = left + (right - left) div 2"
    from True have m: "left \<le> m" "m < right" by (simp_all add: m_def)
    with "1.prems"(4) have inside: "m < length before" by simp
    then have member: "before ! m \<in> set before" by simp
    have mono: "f (before ! i) \<le> f (before ! j)" if "i \<le> j" "j < length before" for i j
      using sorted_nth_mono [OF "1.prems"(1), of i j] that by simp
    show ?thesis
    proof (cases "sortCompare comparefn v (before ! m) < 0")
      case less: True
      then have "f v < f (before ! m)" using "1.prems"(2) [OF member] by simp
      then have above: "\<forall>i. m \<le> i \<longrightarrow> i < length before \<longrightarrow> f v < f (before ! i)"
        using mono by (meson less_le_trans)
      have step: "searchInsert comparefn v before left right = searchInsert comparefn v before left m"
        using True less by (subst searchInsert.simps) (simp add: m_def Let_def)
      from "1.IH"(1) [OF True m_def less "1.prems"(1,2) m(1) _ "1.prems"(5) above] inside
      show ?thesis unfolding step by simp
    next
      case notless: False
      then have "f (before ! m) \<le> f v" using "1.prems"(2) [OF member] by simp
      then have below: "\<forall>i<m + 1. f (before ! i) \<le> f v"
        using mono inside by (metis Suc_eq_plus1 less_Suc_eq_le order_trans)
      have step: "searchInsert comparefn v before left right
          = searchInsert comparefn v before (m + 1) right"
        using True notless by (subst searchInsert.simps) (simp add: m_def Let_def)
      from m have "m + 1 \<le> right" by simp
      from "1.IH"(2) [OF True m_def notless "1.prems"(1,2) this "1.prems"(4) below "1.prems"(6)]
      show ?thesis unfolding step by simp
    qed
  qed
qed

lemma insertSorted_sorted_stable:
  fixes f :: "'a \<Rightarrow> 'b :: linorder"
  assumes ordered: "sorted (map f before)"
    and agree: "\<And>t. t \<in> set before \<Longrightarrow> (sortCompare comparefn v t < 0) = (f v < f t)"
  shows "sorted (map f (insertSorted comparefn before v))"
    and "filter (\<lambda>y. f y = k) (insertSorted comparefn before v)
       = filter (\<lambda>y. f y = k) (before @ [v])"
proof -
  define p where "p = searchInsert comparefn v before 0 (length before)"
  have "p \<le> length before \<and> (\<forall>i<p. f (before ! i) \<le> f v)
      \<and> (\<forall>i. p \<le> i \<longrightarrow> i < length before \<longrightarrow> f v < f (before ! i))"
    unfolding p_def using ordered agree by (intro searchInsert_bounds) simp_all
  then have p: "p \<le> length before" and low: "\<And>i. i < p \<Longrightarrow> f (before ! i) \<le> f v"
    and high: "\<And>i. p \<le> i \<Longrightarrow> i < length before \<Longrightarrow> f v < f (before ! i)"
    by simp_all
  have taken: "f y \<le> f v" if "y \<in> set (take p before)" for y
    using that low p by (auto simp: in_set_conv_nth)
  have dropped: "f v < f y" if "y \<in> set (drop p before)" for y
    using that high p by (auto simp: in_set_conv_nth)
  have parts: "sorted (map f (take p before))" "sorted (map f (drop p before))"
    using ordered by (simp_all add: sorted_map sorted_wrt_take sorted_wrt_drop)
  have shape: "insertSorted comparefn before v = take p before @ v # drop p before"
    by (simp add: insertSorted_def p_def Let_def)
  show "sorted (map f (insertSorted comparefn before v))"
    unfolding shape using parts taken dropped
    by (auto simp: sorted_append dest!: taken dropped intro: less_imp_le order_trans)
  have none: "filter (\<lambda>y. f y = k) (drop p before) = []" if "f v = k"
    using that by (auto simp: filter_empty_conv dest: dropped)
  have whole: "filter (\<lambda>y. f y = k) before
      = filter (\<lambda>y. f y = k) (take p before) @ filter (\<lambda>y. f y = k) (drop p before)"
    by (metis append_take_drop_id filter_append)
  show "filter (\<lambda>y. f y = k) (insertSorted comparefn before v)
       = filter (\<lambda>y. f y = k) (before @ [v])"
    unfolding shape using none whole by simp
qed

lemma foldl_insertSorted_sorted_stable:
  fixes f :: "'a \<Rightarrow> 'b :: linorder"
  shows "sorted (map f acc)
    \<Longrightarrow> (\<And>a b. a \<in> set (acc @ xs) \<Longrightarrow> b \<in> set (acc @ xs)
           \<Longrightarrow> (sortCompare comparefn a b < 0) = (f a < f b))
    \<Longrightarrow> sorted (map f (foldl (insertSorted comparefn) acc xs))
      \<and> (\<forall>k. filter (\<lambda>y. f y = k) (foldl (insertSorted comparefn) acc xs)
             = filter (\<lambda>y. f y = k) (acc @ xs))"
proof (induction xs arbitrary: acc)
  case Nil
  then show ?case by simp
next
  case (Cons x xs)
  let ?acc = "insertSorted comparefn acc x"
  have agree: "(sortCompare comparefn x t < 0) = (f x < f t)" if "t \<in> set acc" for t
    using that Cons.prems(2) by simp
  have sorted': "sorted (map f ?acc)"
    and stable: "\<And>k. filter (\<lambda>y. f y = k) ?acc = filter (\<lambda>y. f y = k) (acc @ [x])"
    using insertSorted_sorted_stable [OF Cons.prems(1) agree] by blast+
  have "set ?acc = set (acc @ [x])"
    using mset_insertSorted [of comparefn acc x] by (metis mset.simps(2) mset_append set_mset_mset
        union_mset_add_mset_right add.right_neutral mset.simps(1))
  then have "\<And>a b. a \<in> set (?acc @ xs) \<Longrightarrow> b \<in> set (?acc @ xs)
      \<Longrightarrow> (sortCompare comparefn a b < 0) = (f a < f b)"
    using Cons.prems(2) by auto
  with sorted' have "sorted (map f (foldl (insertSorted comparefn) ?acc xs))
      \<and> (\<forall>k. filter (\<lambda>y. f y = k) (foldl (insertSorted comparefn) ?acc xs)
             = filter (\<lambda>y. f y = k) (?acc @ xs))"
    by (rule Cons.IH)
  then show ?case by (simp add: stable)
qed

lemma sortCompare_descendingKey:
  assumes "dateParse rt (start_date_datetime a) \<noteq> None"
    and "dateParse rt (start_date_datetime b) \<noteq> None"
  shows "(sortCompare (compareStart rt) a b < 0) = (descendingKey rt a < descendingKey rt b)"
  using assms by (auto simp: sortCompare_def compareStart_def descendingKey_def)

lemma arraySort_sort_key:
  assumes "\<forall>p\<in>set xs. dateParse rt (start_date_datetime p) \<noteq> None"
  shows "arraySort (compareStart rt) xs = sort_key (descendingKey rt) xs"
proof -
  let ?ys = "arraySort (compareStart rt) xs"
  have "sorted (map (descendingKey rt) (foldl (insertSorted (compareStart rt)) [] xs))
      \<and> (\<forall>k. filter (\<lambda>y. descendingKey rt y = k) (foldl (insertSorted (compareStart rt)) [] xs)
             = filter (\<lambda>y. descendingKey rt y = k) ([] @ xs))"
    using assms by (intro foldl_insertSorted_sorted_stable) (simp_all add: sortCompare_descendingKey)
  then have ordered: "sorted (map (descendingKey rt) ?ys)"
    and stable: "\<And>k. filter (\<lambda>y. descendingKey rt y = k) ?ys
        = filter (\<lambda>y. descendingKey rt y = k) xs"
    by (simp_all add: arraySort_def)
  have "sort_key (descendingKey rt) xs = ?ys"
  proof (rule properties_for_sort_key)
    show "mset ?ys = mset xs" by (rule mset_arraySort)
    show "sorted (map (descendingKey rt) ?ys)" by (rule ordered)
    fix k
    have "(\<lambda>x. descendingKey rt k = descendingKey rt x)
        = (\<lambda>y. descendingKey rt y = descendingKey rt k)"
      by auto
    then show "filter (\<lambda>x. descendingKey rt k = descendingKey rt x) ?ys
        = filter (\<lambda>x. descendingKey rt k = descendingKey rt x) xs"
      by (simp add: stable)
  qed
  then show ?thesis by simp
qed

lemma sorted_key_startDescending:
  assumes "\<forall>p\<in>set ps. dateParse rt (start_date_datetime p) \<noteq> None"
    and "sorted (map (descendingKey rt) ps)"
  shows "startDescending rt ps"
proof -
  from assms(2) have "sorted_wrt (\<lambda>a b. descendingKey rt a \<le> descendingKey rt b) ps"
    by (simp add: sorted_map)
  then show ?thesis
    unfolding startDescending_def
  proof (rule sorted_wrt_mono_rel [rotated])
    fix a b
    assume "a \<in> set ps" "b \<in> set ps" "descendingKey rt a \<le> descendingKey rt b"
    with assms(1) show "\<not> startsBefore rt a b"
      by (auto simp: startsBefore_def descendingKey_def split: option.splits)
  qed
qed

lemma filter_start_sort_key:
  assumes "\<forall>p\<in>set xs. dateParse rt (start_date_datetime p) \<noteq> None"
  shows "filter (\<lambda>p. dateParse rt (start_date_datetime p) = Some t) (sort_key (descendingKey rt) xs)
       = filter (\<lambda>p. dateParse rt (start_date_datetime p) = Some t) xs"
proof -
  have same: "\<And>ys. set ys = set xs \<Longrightarrow>
      filter (\<lambda>p. dateParse rt (start_date_datetime p) = Some t) ys
      = filter (\<lambda>p. descendingKey rt p = - t) ys"
    using assms by (intro filter_cong) (auto simp: descendingKey_def)
  have "filter (\<lambda>p. dateParse rt (start_date_datetime p) = Some t) (sort_key (descendingKey rt) xs)
      = filter (\<lambda>p. descendingKey rt p = - t) (sort_key (descendingKey rt) xs)"
    by (rule same) simp
  also have "\<dots> = filter (\<lambda>p. descendingKey rt p = - t) xs"
    by (rule sort_key_stable)
  also have "\<dots> = filter (\<lambda>p. dateParse rt (start_date_datetime p) = Some t) xs"
    by (rule same [symmetric]) simp
  finally show ?thesis .
qed

lemma fetchBundles_of_payload:
  "fetchPayload rt up = Inr v \<Longrightarrow>
     fetchBundles rt up = Inr (arraySort (compareStart rt) (encounterOrder (data v)))"
  by (simp add: fetchBundles_def collectProducts_encounterOrder)

text \<open>The sort on the example lists. In the last two a start date does not parse: the
  list of three stays as it is, and in the list of four the last product is placed
  second.\<close>

lemma arraySort_examples:
  "arraySort (compareStart exampleRuntime) [sku1] = [sku1]"
  "arraySort (compareStart exampleRuntime) [bk1, gm2, gm3] = [gm2, bk1, gm3]"
  "arraySort (compareStart exampleRuntime) [old1, tba1, new1] = [old1, tba1, new1]"
  "arraySort (compareStart exampleRuntime) [tba1, old1, tba2, new1] = [tba1, new1, old1, tba2]"
  by (simp_all add: arraySort_def insertSorted_def searchInsert.simps sortCompare_def
      compareStart_def example_starts Let_def)

lemma fetchBundles_examples:
  "fetchBundles exampleRuntime (pageWith onePayloadText) = Inr [sku1]"
  "fetchBundles exampleRuntime (pageWith tiePayloadText) = Inr [gm2, bk1, gm3]"
  "fetchBundles exampleRuntime (pageWith unparsedPayloadText) = Inr [old1, tba1, new1]"
  by (simp_all add: fetchBundles_of_payload [OF fetchPayload_examples(1)]
      fetchBundles_of_payload [OF fetchPayload_examples(2)]
      fetchBundles_of_payload [OF fetchPayload_examples(3)]
      onePage_def tiePage_def unparsedPage_def encounterOrder_def arraySort_examples)

text \<open>
  Claim C2, as amended. For a payload that passes validation and whose start dates all
  parse, \<^verbatim>\<open>fetchBundles\<close> returns the products in descending order of parsed start; the
  result is a rearrangement of the products in encounter order (books, games, software,
  an absent category contributing nothing; sections and products in list order), and the
  items of any one start time stand in it as they stand in encounter order.
\<close>

theorem fetchBundles_sorted_stable:
  assumes "fetchPayload rt up = Inr v"
    and "\<forall>p\<in>set (encounterOrder (data v)). dateParse rt (start_date_datetime p) \<noteq> None"
  shows "\<exists>ps. fetchBundles rt up = Inr ps
    \<and> startDescending rt ps
    \<and> mset ps = mset (encounterOrder (data v))
    \<and> (\<forall>t. filter (\<lambda>p. dateParse rt (start_date_datetime p) = Some t) ps
           = filter (\<lambda>p. dateParse rt (start_date_datetime p) = Some t) (encounterOrder (data v)))"
proof -
  let ?xs = "encounterOrder (data v)"
  let ?ps = "arraySort (compareStart rt) ?xs"
  have sorted_eq: "?ps = sort_key (descendingKey rt) ?xs"
    using assms(2) by (rule arraySort_sort_key)
  have "fetchBundles rt up = Inr ?ps"
    using assms(1) by (rule fetchBundles_of_payload)
  moreover have "startDescending rt ?ps"
    unfolding sorted_eq using assms(2) by (intro sorted_key_startDescending) simp_all
  moreover have "mset ?ps = mset ?xs"
    by (rule mset_arraySort)
  moreover have "\<forall>t. filter (\<lambda>p. dateParse rt (start_date_datetime p) = Some t) ?ps
      = filter (\<lambda>p. dateParse rt (start_date_datetime p) = Some t) ?xs"
    unfolding sorted_eq using assms(2) by (simp add: filter_start_sort_key)
  ultimately show ?thesis by blast
qed

theorem fetchBundles_sorted_stable_witness:
  "fetchPayload exampleRuntime (pageWith tiePayloadText) = Inr tiePage
   \<and> encounterOrder (data tiePage) = [bk1, gm2, gm3]
   \<and> fetchBundles exampleRuntime (pageWith tiePayloadText) = Inr [gm2, bk1, gm3]
   \<and> startDescending exampleRuntime [gm2, bk1, gm3]
   \<and> filter (\<lambda>p. dateParse exampleRuntime (start_date_datetime p) = Some 1704412800000)
        [gm2, bk1, gm3] = [bk1, gm3]"
proof -
  have order: "encounterOrder (data tiePage) = [bk1, gm2, gm3]"
    by (simp add: tiePage_def encounterOrder_def)
  have parsed: "\<forall>p\<in>set (encounterOrder (data tiePage)).
      dateParse exampleRuntime (start_date_datetime p) \<noteq> None"
    by (simp add: order example_starts)
  from fetchBundles_sorted_stable [OF fetchPayload_examples(2) parsed]
  show ?thesis
    by (simp add: fetchPayload_examples(2) fetchBundles_examples(2) order example_starts)
qed

text \<open>
  Claim C2 as it is stated fails on a valid payload with a start date that does not parse
  (the schema asks for strings only). Of the three products below, in encounter order,
  the first starts on 2024-01-01, the second has the start \<^verbatim>\<open>TBA\<close>, the third starts on
  2024-01-05. The comparator returns \<^verbatim>\<open>NaN\<close> for every pair with the second. The second is
  compared with the first alone and stays behind it; the search for the third then
  compares it with the middle element, the second, alone, and leaves it at the end. The
  list stays as it is, and the product that starts on 2024-01-01 stands before the one
  that starts on 2024-01-05.
\<close>

theorem unparsed_start_not_descending:
  "fetchBundles exampleRuntime (pageWith unparsedPayloadText) = Inr [old1, tba1, new1]
   \<and> \<not> startDescending exampleRuntime [old1, tba1, new1]"
  by (simp add: fetchBundles_examples(3) startDescending_def startsBefore_def example_starts)


section \<open>Filtering and the feed routes\<close>

lemma count_list_filter:
  "count_list (filter P xs) x = (if P x then count_list xs x else 0)"
  by (induction xs) auto

lemma handleRssRequest_title:
  "''Humble Bundle - '' @ toUpperCase (take 1 (selectorString c)) @ drop 1 (selectorString c)
     @ '' Bundles'' = feedTitle (Some c)"
  by (cases c) (simp_all add: toUpperCase_def upperChar_def)

lemma handleRssRequest_success:
  assumes "fetchBundles rt up = Inr ps"
  shows "handleRssRequest rt now up url None =
      \<lparr>status = 200,
       headers = [(''Content-Type'', ''application/rss+xml; charset=utf-8''),
                  (''Cache-Control'', ''public, max-age=3600'')],
       body = generateRss rt now ps (feedTitle None) url\<rparr>"
    and "handleRssRequest rt now up url (Some c) =
      \<lparr>status = 200,
       headers = [(''Content-Type'', ''application/rss+xml; charset=utf-8''),
                  (''Cache-Control'', ''public, max-age=3600'')],
       body = generateRss rt now (filterByCategory ps c) (feedTitle (Some c)) url\<rparr>"
  using assms handleRssRequest_title [of c] by (simp_all add: handleRssRequest_def)

lemma handleRssRequest_failure:
  assumes "fetchBundles rt up = Inl e"
  shows "handleRssRequest rt now up url sel =
      \<lparr>status = 500, headers = [], body = ''Error generating RSS feed: '' @ message rt e\<rparr>"
  using assms by (simp add: handleRssRequest_def)

lemma handleHomepage_failure:
  assumes "fetchBundles rt up = Inl e"
  shows "handleHomepage rt now up =
      \<lparr>status = 500, headers = [(''Content-Type'', ''text/plain'')],
       body = ''Error: '' @ message rt e\<rparr>"
  using assms by (simp add: handleHomepage_def)

lemma serve_routes:
  "serve rt now up origin ''/'' = handleHomepage rt now up"
  "serve rt now up origin ''/rss'' = handleRssRequest rt now up (origin @ ''/rss'') None"
  "serve rt now up origin ''/games'' = handleRssRequest rt now up (origin @ ''/games'') (Some Games)"
  "serve rt now up origin ''/books'' = handleRssRequest rt now up (origin @ ''/books'') (Some Books)"
  "serve rt now up origin ''/software'' =
     handleRssRequest rt now up (origin @ ''/software'') (Some Software)"
  by (simp_all add: serve_def)

text \<open>
  Claim C3. For a payload that passes validation, \<^verbatim>\<open>fetchBundles\<close> returns a list with as
  many items as the payload has products across its categories. Filtering it by a selector
  keeps an item as often as it occurs when its tag equals the selector's string, and drops
  it otherwise; the comparison is exact, so the tag \<^verbatim>\<open>Games\<close> does not pass the selector
  \<^verbatim>\<open>games\<close>. The feed of a selector is rendered from the filtered list, whatever it holds
  (an empty one too), with status 200; the feed without a selector is rendered from the
  whole list.
\<close>

theorem flatten_length_and_filter:
  assumes "fetchPayload rt up = Inr v"
  shows "\<exists>ps. fetchBundles rt up = Inr ps
    \<and> length ps = productCount (data v)
    \<and> (\<forall>c p. count_list (filterByCategory ps c) p
              = (if tile_stamp p = selectorString c then count_list ps p else 0))
    \<and> (\<forall>c url. handleRssRequest rt now up url (Some c) =
          \<lparr>status = 200,
           headers = [(''Content-Type'', ''application/rss+xml; charset=utf-8''),
                      (''Cache-Control'', ''public, max-age=3600'')],
           body = generateRss rt now (filterByCategory ps c) (feedTitle (Some c)) url\<rparr>)
    \<and> (\<forall>url. handleRssRequest rt now up url None =
          \<lparr>status = 200,
           headers = [(''Content-Type'', ''application/rss+xml; charset=utf-8''),
                      (''Cache-Control'', ''public, max-age=3600'')],
           body = generateRss rt now ps (feedTitle None) url\<rparr>)
    \<and> filterByCategory [q\<lparr>tile_stamp := ''Games''\<rparr>] Games = []"
proof -
  let ?ps = "arraySort (compareStart rt) (encounterOrder (data v))"
  have fetched: "fetchBundles rt up = Inr ?ps"
    using assms by (rule fetchBundles_of_payload)
  have "length ?ps = productCount (data v)"
    by (simp add: length_arraySort length_encounterOrder)
  moreover have "\<forall>c p. count_list (filterByCategory ?ps c) p
      = (if tile_stamp p = selectorString c then count_list ?ps p else 0)"
    by (simp add: filterByCategory_def count_list_filter)
  moreover have "filterByCategory [q\<lparr>tile_stamp := ''Games''\<rparr>] Games = []"
    by (simp add: filterByCategory_def)
  ultimately show ?thesis
    using fetched handleRssRequest_success [OF fetched] by blast
qed

theorem flatten_length_and_filter_witness:
  "fetchPayload exampleRuntime (pageWith tiePayloadText) = Inr tiePage
   \<and> fetchBundles exampleRuntime (pageWith tiePayloadText) = Inr [gm2, bk1, gm3]
   \<and> productCount (data tiePage) = 3
   \<and> filterByCategory [gm2, bk1, gm3] Games = [gm2, gm3]
   \<and> filterByCategory [gm2, bk1, gm3] Software = []
   \<and> status (handleRssRequest exampleRuntime 0 (pageWith tiePayloadText)
        ''http://localhost:3000/software'' (Some Software)) = 200"
  using flatten_length_and_filter [OF fetchPayload_examples(2), of 0 sku1]
  by (auto simp add: fetchPayload_examples(2) fetchBundles_examples(2) filterByCategory_def
      example_stamps tiePage_def productCount_def)

text \<open>
  Claim C10. What \<^verbatim>\<open>filterByCategory\<close> returns is a subsequence of its input: its elements
  are elements of the input, in the order they have there. With the arrays in a store,
  the call allocates the result as a new array and leaves every array of the store, the
  input among them, as it was.
\<close>

theorem filterByCategory_subsequence:
  "subseq (filterByCategory prods c) prods
   \<and> set (filterByCategory prods c) \<subseteq> set prods
   \<and> (ref < length store \<longrightarrow>
        (\<exists>store'. filterByCategoryStore store ref c = Some (store', length store)
           \<and> store' ! length store = filterByCategory (store ! ref) c
           \<and> take (length store) store' = store))"
  by (simp add: filterByCategory_def filterByCategoryStore_def)

theorem filterByCategory_subsequence_witness:
  "subseq (filterByCategory [bk1, gm2, gm3] Games) [bk1, gm2, gm3]
   \<and> filterByCategory [bk1, gm2, gm3] Games = [gm2, gm3]
   \<and> (0::nat) < length [[bk1, gm2, gm3]]
   \<and> filterByCategoryStore [[bk1, gm2, gm3]] 0 Games
       = Some ([[bk1, gm2, gm3], [gm2, gm3]], 1)"
  using filterByCategory_subsequence [of "[bk1, gm2, gm3]" Games 0 "[[bk1, gm2, gm3]]"]
  by (simp add: filterByCategory_def filterByCategoryStore_def example_stamps)

text \<open>
  Claim C6. When the upstream response has a status outside 200 to 299, \<^verbatim>\<open>fetchBundles\<close>
  fails with the error of line 49, whose message ends with the status in decimal; when the
  status is a success and the page has no marked script element followed by a closing
  tag, it fails with the error of line 55. In both cases every route that runs the
  pipeline answers with status 500 and a body that ends with the message: the feed routes
  after \<^verbatim>\<open>Error generating RSS feed: \<close>, the homepage after \<^verbatim>\<open>Error: \<close> and with content
  type \<^verbatim>\<open>text/plain\<close>. The handler returns a response; nothing is thrown out of it.
\<close>

theorem pipeline_failure_is_500:
  "(\<not> (200 \<le> st \<and> st \<le> 299) \<longrightarrow>
      fetchBundles rt (Responded st txt) = Inl (FetchFailed st)
    \<and> message rt (FetchFailed st) = ''Failed to fetch Humble Bundle page: '' @ decimal st
    \<and> (path \<in> {''/rss'', ''/games'', ''/books'', ''/software''} \<longrightarrow>
         serve rt now (Responded st txt) origin path =
           \<lparr>status = 500, headers = [],
            body = ''Error generating RSS feed: Failed to fetch Humble Bundle page: ''
                   @ decimal st\<rparr>)
    \<and> serve rt now (Responded st txt) origin ''/'' =
         \<lparr>status = 500, headers = [(''Content-Type'', ''text/plain'')],
          body = ''Error: Failed to fetch Humble Bundle page: '' @ decimal st\<rparr>)
   \<and> (200 \<le> st \<and> st \<le> 299
      \<and> (\<nexists>before inner after. html = before @ scriptOpen @ inner @ scriptClose @ after) \<longrightarrow>
      fetchBundles rt (Responded st (Inr html)) = Inl ScriptTagMissing
    \<and> message rt ScriptTagMissing = ''Could not find landingPage-json-data script tag''
    \<and> (path \<in> {''/rss'', ''/games'', ''/books'', ''/software''} \<longrightarrow>
         serve rt now (Responded st (Inr html)) origin path =
           \<lparr>status = 500, headers = [],
            body = ''Error generating RSS feed: Could not find landingPage-json-data script tag''\<rparr>)
    \<and> serve rt now (Responded st (Inr html)) origin ''/'' =
         \<lparr>status = 500, headers = [(''Content-Type'', ''text/plain'')],
          body = ''Error: Could not find landingPage-json-data script tag''\<rparr>)"
proof (intro conjI impI)
  assume bad: "\<not> (200 \<le> st \<and> st \<le> 299)"
  then show failed: "fetchBundles rt (Responded st txt) = Inl (FetchFailed st)"
    by (simp add: fetchBundles_def fetchPayload_def)
  show "message rt (FetchFailed st) = ''Failed to fetch Humble Bundle page: '' @ decimal st"
    by simp
  show "serve rt now (Responded st txt) origin ''/'' =
         \<lparr>status = 500, headers = [(''Content-Type'', ''text/plain'')],
          body = ''Error: Failed to fetch Humble Bundle page: '' @ decimal st\<rparr>"
    by (simp add: serve_routes handleHomepage_failure [OF failed])
  assume "path \<in> {''/rss'', ''/games'', ''/books'', ''/software''}"
  then show "serve rt now (Responded st txt) origin path =
           \<lparr>status = 500, headers = [],
            body = ''Error generating RSS feed: Failed to fetch Humble Bundle page: ''
                   @ decimal st\<rparr>"
    by (auto simp add: serve_routes handleRssRequest_failure [OF failed])
next
  assume ok: "200 \<le> st \<and> st \<le> 299
      \<and> (\<nexists>before inner after. html = before @ scriptOpen @ inner @ scriptClose @ after)"
  then have "matchScriptTag html = None"
    using matchScriptTag_decomposes [of html] by (cases "matchScriptTag html") auto
  with ok show failed: "fetchBundles rt (Responded st (Inr html)) = Inl ScriptTagMissing"
    by (simp add: fetchBundles_def fetchPayload_def)
  show "message rt ScriptTagMissing = ''Could not find landingPage-json-data script tag''"
    by simp
  show "serve rt now (Responded st (Inr html)) origin ''/'' =
         \<lparr>status = 500, headers = [(''Content-Type'', ''text/plain'')],
          body = ''Error: Could not find landingPage-json-data script tag''\<rparr>"
    by (simp add: serve_routes handleHomepage_failure [OF failed])
  assume "path \<in> {''/rss'', ''/games'', ''/books'', ''/software''}"
  then show "serve rt now (Responded st (Inr html)) origin path =
           \<lparr>status = 500, headers = [],
            body = ''Error generating RSS feed: Could not find landingPage-json-data script tag''\<rparr>"
    by (auto simp add: serve_routes handleRssRequest_failure [OF failed])
qed

theorem pipeline_failure_is_500_witness:
  "\<not> (200 \<le> (503::nat) \<and> (503::nat) \<le> 299)
   \<and> serve exampleRuntime 0 (Responded 503 (Inr ''Service Unavailable'')) ''http://localhost:3000''
        ''/games'' =
       \<lparr>status = 500, headers = [],
        body = ''Error generating RSS feed: Failed to fetch Humble Bundle page: 503''\<rparr>
   \<and> serve exampleRuntime 0 (Responded 200 (Inr ''<html><body>No bundles today</body></html>''))
        ''http://localhost:3000'' ''/games'' =
       \<lparr>status = 500, headers = [],
        body = ''Error generating RSS feed: Could not find landingPage-json-data script tag''\<rparr>
   \<and> serve exampleRuntime 0 (Responded 200 (Inr ''<html><body>No bundles today</body></html>''))
        ''http://localhost:3000'' ''/'' =
       \<lparr>status = 500, headers = [(''Content-Type'', ''text/plain'')],
        body = ''Error: Could not find landingPage-json-data script tag''\<rparr>"
proof -
  have none: "findFirst scriptOpen ''<html><body>No bundles today</body></html>'' = None"
    by (simp add: scriptOpen_def)
  have absent: "\<nexists>before inner after.
      ''<html><body>No bundles today</body></html>'' = before @ scriptOpen @ inner @ scriptClose @ after"
  proof
    assume "\<exists>before inner after.
      ''<html><body>No bundles today</body></html>'' = before @ scriptOpen @ inner @ scriptClose @ after"
    then obtain before rest
      where "''<html><body>No bundles today</body></html>'' = before @ scriptOpen @ rest"
      by blast
    then have "findFirst scriptOpen ''<html><body>No bundles today</body></html>'' \<noteq> None"
      by (simp only: findFirst_complete not_False_eq_True)
    with none show False by simp
  qed
  have digits: "decimal 503 = ''503''"
    by (simp add: decimal.simps digit_def)
  from pipeline_failure_is_500 [of 503 exampleRuntime "Inr ''Service Unavailable''" "''/games''" 0
      "''http://localhost:3000''" "''Service Unavailable''"]
    pipeline_failure_is_500 [of 200 exampleRuntime "Inr ''''" "''/games''" 0
      "''http://localhost:3000''" "''<html><body>No bundles today</body></html>''"]
    absent digits
  show ?thesis by simp
qed


section \<open>Dispatch\<close>

lemma handleHomepage_success:
  assumes "fetchBundles rt up = Inr ps"
  shows "handleHomepage rt now up =
      \<lparr>status = 200,
       headers = [(''Content-Type'', ''text/html; charset=utf-8''),
                  (''Cache-Control'', ''public, max-age=3600'')],
       body = generateHomepage rt now ps\<rparr>"
  using assms by (simp add: handleHomepage_def)

text \<open>
  Claim C9, as amended. The handler dispatches on the whole path. \<^verbatim>\<open>/favicon.ico\<close> is
  answered with status 200, content type \<^verbatim>\<open>image/svg+xml\<close>, the cache header and the fixed
  icon. A path that is none of the six is answered with status 404 and the body
  \<^verbatim>\<open>Not Found\<close>. When the pipeline succeeds, \<^verbatim>\<open>/\<close> is answered with status 200, content
  type \<^verbatim>\<open>text/html; charset=utf-8\<close>, the cache header and the page, and \<^verbatim>\<open>/rss\<close>,
  \<^verbatim>\<open>/games\<close>, \<^verbatim>\<open>/books\<close> and \<^verbatim>\<open>/software\<close> with status 200, content type
  \<^verbatim>\<open>application/rss+xml; charset=utf-8\<close>, the cache header and the feed of the whole or
  of the filtered list.
\<close>

theorem dispatch_by_exact_path:
  "serve rt now up origin ''/favicon.ico'' =
     \<lparr>status = 200,
      headers = [(''Content-Type'', ''image/svg+xml''),
                 (''Cache-Control'', ''public, max-age=3600'')],
      body = favicon\<rparr>
   \<and> (path \<notin> {''/'', ''/rss'', ''/games'', ''/books'', ''/software'', ''/favicon.ico''} \<longrightarrow>
        serve rt now up origin path = \<lparr>status = 404, headers = [], body = ''Not Found''\<rparr>)
   \<and> (fetchBundles rt up = Inr ps \<longrightarrow>
        serve rt now up origin ''/'' =
          \<lparr>status = 200,
           headers = [(''Content-Type'', ''text/html; charset=utf-8''),
                      (''Cache-Control'', ''public, max-age=3600'')],
           body = generateHomepage rt now ps\<rparr>
      \<and> serve rt now up origin ''/rss'' =
          \<lparr>status = 200,
           headers = [(''Content-Type'', ''application/rss+xml; charset=utf-8''),
                      (''Cache-Control'', ''public, max-age=3600'')],
           body = generateRss rt now ps (feedTitle None) (origin @ ''/rss'')\<rparr>
      \<and> serve rt now up origin ''/games'' =
          \<lparr>status = 200,
           headers = [(''Content-Type'', ''application/rss+xml; charset=utf-8''),
                      (''Cache-Control'', ''public, max-age=3600'')],
           body = generateRss rt now (filterByCategory ps Games) (feedTitle (Some Games))
                    (origin @ ''/games'')\<rparr>
      \<and> serve rt now up origin ''/books'' =
          \<lparr>status = 200,
           headers = [(''Content-Type'', ''application/rss+xml; charset=utf-8''),
                      (''Cache-Control'', ''public, max-age=3600'')],
           body = generateRss rt now (filterByCategory ps Books) (feedTitle (Some Books))
                    (origin @ ''/books'')\<rparr>
      \<and> serve rt now up origin ''/software'' =
          \<lparr>status = 200,
           headers = [(''Content-Type'', ''application/rss+xml; charset=utf-8''),
                      (''Cache-Control'', ''public, max-age=3600'')],
           body = generateRss rt now (filterByCategory ps Software) (feedTitle (Some Software))
                    (origin @ ''/software'')\<rparr>)"
proof (intro conjI impI)
  show "serve rt now up origin ''/favicon.ico'' =
     \<lparr>status = 200,
      headers = [(''Content-Type'', ''image/svg+xml''),
                 (''Cache-Control'', ''public, max-age=3600'')],
      body = favicon\<rparr>"
    by (simp add: serve_def)
next
  assume "path \<notin> {''/'', ''/rss'', ''/games'', ''/books'', ''/software'', ''/favicon.ico''}"
  then show "serve rt now up origin path = \<lparr>status = 404, headers = [], body = ''Not Found''\<rparr>"
    by (simp add: serve_def)
qed (simp_all only: serve_routes handleHomepage_success handleRssRequest_success)

theorem dispatch_by_exact_path_witness:
  "serve exampleRuntime 0 (pageWith tiePayloadText) ''http://localhost:3000'' ''/rss/'' =
     \<lparr>status = 404, headers = [], body = ''Not Found''\<rparr>
   \<and> fetchBundles exampleRuntime (pageWith tiePayloadText) = Inr [gm2, bk1, gm3]
   \<and> serve exampleRuntime 0 (pageWith tiePayloadText) ''http://localhost:3000'' ''/books'' =
     \<lparr>status = 200,
      headers = [(''Content-Type'', ''application/rss+xml; charset=utf-8''),
                 (''Cache-Control'', ''public, max-age=3600'')],
      body = generateRss exampleRuntime 0 [bk1] ''Humble Bundle - Books Bundles''
               ''http://localhost:3000/books''\<rparr>
   \<and> status (serve exampleRuntime 0 (pageWith tiePayloadText) ''http://localhost:3000'' ''/'') = 200"
  using dispatch_by_exact_path [of exampleRuntime 0 "pageWith tiePayloadText"
      "''http://localhost:3000''" "''/rss/''" "[gm2, bk1, gm3]"]
  by (simp add: fetchBundles_examples(2) filterByCategory_def example_stamps)

text \<open>
  Claim C9 as it is stated has \<^verbatim>\<open>/\<close> answered with status 200 whatever the pipeline does;
  only the feed routes carry the words "on success". When the upstream page answers with
  status 503, \<^verbatim>\<open>handleHomepage\<close> catches the error of \<^verbatim>\<open>fetchBundles\<close> and answers \<^verbatim>\<open>/\<close>
  with status 500 and a plain-text body.
\<close>

theorem homepage_answers_500_on_failure:
  "serve exampleRuntime 0 (Responded 503 (Inr ''Service Unavailable'')) ''http://localhost:3000'' ''/''
     = \<lparr>status = 500, headers = [(''Content-Type'', ''text/plain'')],
        body = ''Error: Failed to fetch Humble Bundle page: 503''\<rparr>
   \<and> status (serve exampleRuntime 0 (Responded 503 (Inr ''Service Unavailable''))
         ''http://localhost:3000'' ''/'') \<noteq> 200"
  by (simp add: serve_routes handleHomepage_def fetchBundles_def fetchPayload_def decimal.simps
      digit_def)

text \<open>
  Claim C5. Let the payload pass validation and hold exactly one product, with machine
  name \<^verbatim>\<open>sku1\<close>, title \<^verbatim>\<open>Cool & Fun Game\<close>, path \<^verbatim>\<open>/games/sku1\<close>, tag \<^verbatim>\<open>games\<close> and the
  two dates of the example (any description and image). Then \<^verbatim>\<open>/games\<close> is answered with
  the feed document that has the one entry written out below, with the title
  \<^verbatim>\<open>Cool &amp; Fun Game\<close>, the link \<^verbatim>\<open>https://www.humblebundle.com/games/sku1\<close>, the guid
  \<^verbatim>\<open>sku1\<close> and the category \<^verbatim>\<open>games\<close>; and \<^verbatim>\<open>/books\<close> with the feed document that has no
  entry.
\<close>

theorem games_feed_example:
  assumes "fetchPayload rt up = Inr v"
    and \<open>encounterOrder (data v) =
      [\<lparr>machine_name = ''sku1'', tile_name = ''Cool & Fun Game'', product_url = ''/games/sku1'',
        detailed_marketing_blurb = blurb, tile_image = img,
        start_date_datetime = ''2024-01-01T00:00:00Z'',
        end_date_datetime = ''2024-01-10T00:00:00Z'', tile_stamp = ''games''\<rparr>]\<close>
  shows \<open>serve rt now up origin ''/games'' =
     \<lparr>status = 200,
      headers = [(''Content-Type'', ''application/rss+xml; charset=utf-8''),
                 (''Cache-Control'', ''public, max-age=3600'')],
      body =
        ''<?xml version="1.0" encoding="UTF-8"?>\<newline><rss version="2.0" xmlns:atom="http://www.w3.org/2005/Atom">\<newline>  <channel>\<newline>''
        @ ''    <title>Humble Bundle - Games Bundles</title>\<newline>''
        @ ''    <link>https://www.humblebundle.com/bundles</link>\<newline>''
        @ ''    <description>Current bundles available on Humble Bundle</description>\<newline>''
        @ ''    <language>en-us</language>\<newline>''
        @ ''    <lastBuildDate>'' @ toUTCString rt (Some now) @ ''</lastBuildDate>\<newline>''
        @ ''    <atom:link href="'' @ origin @ ''/games" rel="self" type="application/rss+xml"/>\<newline>''
        @ ''    <item>\<newline>''
        @ ''      <title>Cool &amp; Fun Game</title>\<newline>''
        @ ''      <link>https://www.humblebundle.com/games/sku1</link>\<newline>''
        @ ''      <description><![CDATA[<img src="'' @ img @ ''" /><br/><br/>'' @ blurb
        @ ''<br/><br/><strong>Ends:</strong> ''
        @ toLocaleDateString rt (dateParse rt ''2024-01-10T00:00:00Z'') @ '']]></description>\<newline>''
        @ ''      <pubDate>'' @ toUTCString rt (dateParse rt ''2024-01-01T00:00:00Z'') @ ''</pubDate>\<newline>''
        @ ''      <guid isPermaLink="false">sku1</guid>\<newline>''
        @ ''      <category>games</category>\<newline>''
        @ ''    </item>\<newline>''
        @ ''  </channel>\<newline></rss>''\<rparr>
   \<and> serve rt now up origin ''/books'' =
     \<lparr>status = 200,
      headers = [(''Content-Type'', ''application/rss+xml; charset=utf-8''),
                 (''Cache-Control'', ''public, max-age=3600'')],
      body =
        ''<?xml version="1.0" encoding="UTF-8"?>\<newline><rss version="2.0" xmlns:atom="http://www.w3.org/2005/Atom">\<newline>  <channel>\<newline>''
        @ ''    <title>Humble Bundle - Books Bundles</title>\<newline>''
        @ ''    <link>https://www.humblebundle.com/bundles</link>\<newline>''
        @ ''    <description>Current bundles available on Humble Bundle</description>\<newline>''
        @ ''    <language>en-us</language>\<newline>''
        @ ''    <lastBuildDate>'' @ toUTCString rt (Some now) @ ''</lastBuildDate>\<newline>''
        @ ''    <atom:link href="'' @ origin @ ''/books" rel="self" type="application/rss+xml"/>\<newline>''
        @ ''\<newline>''
        @ ''  </channel>\<newline></rss>''\<rparr>\<close>
proof -
  let ?p = \<open>\<lparr>machine_name = ''sku1'', tile_name = ''Cool & Fun Game'', product_url = ''/games/sku1'',
        detailed_marketing_blurb = blurb, tile_image = img,
        start_date_datetime = ''2024-01-01T00:00:00Z'',
        end_date_datetime = ''2024-01-10T00:00:00Z'', tile_stamp = ''games''\<rparr>\<close>
  have fetched: "fetchBundles rt up = Inr [?p]"
    using fetchBundles_of_payload [OF assms(1)] by (simp add: assms(2) arraySort_single)
  have games: "filterByCategory [?p] Games = [?p]" and books: "filterByCategory [?p] Books = []"
    by (simp_all add: filterByCategory_def)
  have title: \<open>escapeXml ''Cool & Fun Game'' = ''Cool &amp; Fun Game''\<close>
    and link: \<open>escapeXml ''https://www.humblebundle.com/games/sku1''
      = ''https://www.humblebundle.com/games/sku1''\<close>
    and guid: \<open>escapeXml ''sku1'' = ''sku1''\<close>
    and cat: \<open>escapeXml ''games'' = ''games''\<close>
    and titles: \<open>escapeXml ''Humble Bundle - Games Bundles'' = ''Humble Bundle - Games Bundles''\<close>
      \<open>escapeXml ''Humble Bundle - Books Bundles'' = ''Humble Bundle - Books Bundles''\<close>
    by (simp_all add: escapeXml_def)
  show ?thesis
    by (simp add: serve_routes handleRssRequest_success [OF fetched] games books
        generateRss_def rssItem_def HUMBLE_BUNDLES_URL_def title link guid cat titles)
qed

theorem games_feed_example_witness:
  "fetchPayload exampleRuntime (pageWith onePayloadText) = Inr onePage
   \<and> encounterOrder (data onePage) = [sku1]
   \<and> status (serve exampleRuntime 0 (pageWith onePayloadText) ''http://localhost:3000'' ''/games'')
       = 200
   \<and> status (serve exampleRuntime 0 (pageWith onePayloadText) ''http://localhost:3000'' ''/books'')
       = 200"
proof -
  have order: \<open>encounterOrder (data onePage) =
      [\<lparr>machine_name = ''sku1'', tile_name = ''Cool & Fun Game'', product_url = ''/games/sku1'',
        detailed_marketing_blurb = ''Five games'', tile_image = ''https://img.example/sku1.png'',
        start_date_datetime = ''2024-01-01T00:00:00Z'',
        end_date_datetime = ''2024-01-10T00:00:00Z'', tile_stamp = ''games''\<rparr>]\<close>
    by (simp add: onePage_def encounterOrder_def sku1_def)
  have order': "encounterOrder (data onePage) = [sku1]"
    by (simp add: onePage_def encounterOrder_def)
  note example = games_feed_example [OF fetchPayload_examples(1) order,
      of 0 "''http://localhost:3000''"]
  have "status (serve exampleRuntime 0 (pageWith onePayloadText) ''http://localhost:3000'' ''/games'')
       = 200"
    by (subst example [THEN conjunct1]) (rule response.select_convs)
  moreover
  have "status (serve exampleRuntime 0 (pageWith onePayloadText) ''http://localhost:3000'' ''/books'')
       = 200"
    by (subst example [THEN conjunct2]) (rule response.select_convs)
  ultimately show ?thesis
    using fetchPayload_examples(1) order' by blast
qed


section \<open>Validation\<close>

lemma rejectsAt_collect [simp]:
  "rejectsAt (collect f x) p = (rejectsAt f p \<or> rejectsAt x p)"
  by (cases f; cases x) (auto simp: rejectsAt_def)

lemma rejectsAt_Inr [simp]: "rejectsAt (Inr x) p = False"
  by (simp add: rejectsAt_def)

lemma rejectsAt_zString:
  "rejectsAt (zString q j) p = (p = q \<and> (case j of Some (JString s) \<Rightarrow> False | _ \<Rightarrow> True))"
  by (auto simp: rejectsAt_def zString_def split: option.splits json.splits)

lemma rejectsAt_zUrl:
  "rejectsAt (zUrl rt q j) p =
     (p = q \<and> (case j of Some (JString s) \<Rightarrow> \<not> isUrl rt s | _ \<Rightarrow> True))"
  by (auto simp: rejectsAt_def zUrl_def split: option.splits json.splits)

lemma rejectsAt_zItems:
  "i < length xs \<Longrightarrow> rejectsAt (S (q @ [Index (k + i)]) (Some (xs ! i))) p
     \<Longrightarrow> rejectsAt (zItems S q k xs) p"
proof (induction xs arbitrary: k i)
  case Nil
  then show ?case by simp
next
  case (Cons x xs)
  show ?case
  proof (cases i)
    case 0
    with Cons.prems show ?thesis by simp
  next
    case (Suc i')
    with Cons.prems have "i' < length xs"
      and "rejectsAt (S (q @ [Index (Suc k + i')]) (Some (xs ! i'))) p"
      by simp_all
    then have "rejectsAt (zItems S q (Suc k) xs) p" by (rule Cons.IH)
    then show ?thesis by simp
  qed
qed

lemma rejectsAt_zArray:
  "i < length xs \<Longrightarrow> rejectsAt (S (q @ [Index i]) (Some (xs ! i))) p
     \<Longrightarrow> rejectsAt (zArray S q (Some (JArray xs))) p"
  using rejectsAt_zItems [of i xs S q 0 p] by (simp add: zArray_def)

lemma rejectsAt_zOptional:
  "rejectsAt (S q (Some v)) p \<Longrightarrow> rejectsAt (zOptional S q (Some v)) p"
  by (auto simp: zOptional_def rejectsAt_def split: sum.splits)

lemma ProductSchema_rejects:
  assumes "fieldViolation rt kvs f"
  shows "rejectsAt (ProductSchema rt q (Some (JObject kvs))) (q @ [Key f])"
proof -
  from assms
  have bad: "case map_of kvs f of
               Some (JString s) \<Rightarrow> f = ''tile_image'' \<and> \<not> isUrl rt s
             | _ \<Rightarrow> True"
    by (simp add: fieldViolation_def)
  have str: "rejectsAt (zString (q @ [Key f]) (map_of kvs f)) (q @ [Key f])"
    if "f \<noteq> ''tile_image''"
    using bad that by (auto simp: rejectsAt_zString split: option.splits json.splits)
  have url: "rejectsAt (zUrl rt (q @ [Key f]) (map_of kvs f)) (q @ [Key f])"
    if "f = ''tile_image''"
    using bad that by (auto simp: rejectsAt_zUrl split: option.splits json.splits)
  from assms
  have "f \<in> set [''machine_name'', ''tile_name'', ''product_url'', ''detailed_marketing_blurb'',
                ''tile_image'', ''start_date|datetime'', ''end_date|datetime'', ''tile_stamp'']"
    unfolding fieldViolation_def by (rule conjunct1)
  then have "f = ''machine_name'' \<or> f = ''tile_name'' \<or> f = ''product_url''
    \<or> f = ''detailed_marketing_blurb'' \<or> f = ''tile_image'' \<or> f = ''start_date|datetime''
    \<or> f = ''end_date|datetime'' \<or> f = ''tile_stamp''"
    by (simp only: list.set insert_iff empty_iff simp_thms)
  then show ?thesis
  proof (elim disjE)
    assume "f = ''machine_name''"
    with str show ?thesis by (simp add: ProductSchema_def)
  next
    assume "f = ''tile_name''"
    with str show ?thesis by (simp add: ProductSchema_def)
  next
    assume "f = ''product_url''"
    with str show ?thesis by (simp add: ProductSchema_def)
  next
    assume "f = ''detailed_marketing_blurb''"
    with str show ?thesis by (simp add: ProductSchema_def)
  next
    assume "f = ''tile_image''"
    with url show ?thesis by (simp add: ProductSchema_def)
  next
    assume "f = ''start_date|datetime''"
    with str show ?thesis by (simp add: ProductSchema_def)
  next
    assume "f = ''end_date|datetime''"
    with str show ?thesis by (simp add: ProductSchema_def)
  next
    assume "f = ''tile_stamp''"
    with str show ?thesis by (simp add: ProductSchema_def)
  qed
qed

lemma jsonGet_Key:
  assumes "jsonGet (Key k # p) j = Some r"
  obtains kvs v where "j = JObject kvs" and "map_of kvs k = Some v" and "jsonGet p v = Some r"
  using assms by (cases j) (auto split: option.splits)

lemma jsonGet_Index:
  assumes "jsonGet (Index i # p) j = Some r"
  obtains xs where "j = JArray xs" and "i < length xs" and "jsonGet p (xs ! i) = Some r"
  using assms by (cases j) (auto split: if_splits)

lemma SectionSchema_rejects:
  assumes "jsonGet (Key ''products'' # Index j # rest) sec = Some r"
    and "\<And>prod. jsonGet rest prod = Some r
           \<Longrightarrow> rejectsAt (ProductSchema rt (q @ [Key ''products'', Index j]) (Some prod)) p"
  shows "rejectsAt (SectionSchema rt q (Some sec)) p"
proof -
  from assms(1) obtain kvs v where sec: "sec = JObject kvs" "map_of kvs ''products'' = Some v"
    and "jsonGet (Index j # rest) v = Some r"
    by (rule jsonGet_Key)
  then obtain xs where v: "v = JArray xs" "j < length xs" and "jsonGet rest (xs ! j) = Some r"
    by (auto elim: jsonGet_Index)
  then have "rejectsAt (ProductSchema rt ((q @ [Key ''products'']) @ [Index j]) (Some (xs ! j))) p"
    using assms(2) by simp
  with v have "rejectsAt (zArray (ProductSchema rt) (q @ [Key ''products'']) (Some (JArray xs))) p"
    by (intro rejectsAt_zArray)
  with sec v show ?thesis by (simp add: SectionSchema_def)
qed

lemma CategorySchema_rejects:
  assumes "jsonGet (Key ''mosaic'' # Index i # rest) cat = Some r"
    and "\<And>sec. jsonGet rest sec = Some r
           \<Longrightarrow> rejectsAt (SectionSchema rt (q @ [Key ''mosaic'', Index i]) (Some sec)) p"
  shows "rejectsAt (CategorySchema rt q (Some cat)) p"
proof -
  from assms(1) obtain kvs v where cat: "cat = JObject kvs" "map_of kvs ''mosaic'' = Some v"
    and "jsonGet (Index i # rest) v = Some r"
    by (rule jsonGet_Key)
  then obtain xs where v: "v = JArray xs" "i < length xs" and "jsonGet rest (xs ! i) = Some r"
    by (auto elim: jsonGet_Index)
  then have "rejectsAt (SectionSchema rt ((q @ [Key ''mosaic'']) @ [Index i]) (Some (xs ! i))) p"
    using assms(2) by simp
  with v have "rejectsAt (zArray (SectionSchema rt) (q @ [Key ''mosaic'']) (Some (JArray xs))) p"
    by (intro rejectsAt_zArray)
  with cat v show ?thesis by (simp add: CategorySchema_def)
qed

lemma DataSchema_rejects:
  assumes "c \<in> {''books'', ''games'', ''software''}"
    and "jsonGet (Key c # rest) d = Some r"
    and "\<And>cat. jsonGet rest cat = Some r
           \<Longrightarrow> rejectsAt (CategorySchema rt (q @ [Key c]) (Some cat)) p"
  shows "rejectsAt (DataSchema rt q (Some d)) p"
proof -
  from assms(2) obtain kvs v where d: "d = JObject kvs" "map_of kvs c = Some v"
    and "jsonGet rest v = Some r"
    by (rule jsonGet_Key)
  then have "rejectsAt (zOptional (CategorySchema rt) (q @ [Key c]) (Some v)) p"
    using assms(3) by (intro rejectsAt_zOptional)
  with d assms(1) show ?thesis by (auto simp: DataSchema_def)
qed

lemma LandingPageSchema_rejects:
  assumes "jsonGet (Key ''data'' # rest) raw = Some r"
    and "\<And>d. jsonGet rest d = Some r \<Longrightarrow> rejectsAt (DataSchema rt (q @ [Key ''data'']) (Some d)) p"
  shows "rejectsAt (LandingPageSchema rt q (Some raw)) p"
proof -
  from assms(1) obtain kvs v where raw: "raw = JObject kvs" "map_of kvs ''data'' = Some v"
    and "jsonGet rest v = Some r"
    by (rule jsonGet_Key)
  then have "rejectsAt (DataSchema rt (q @ [Key ''data'']) (Some v)) p"
    using assms(2) by simp
  with raw show ?thesis by (simp add: LandingPageSchema_def)
qed

lemma violation_rejected:
  assumes "c \<in> {''books'', ''games'', ''software''}"
    and "jsonGet [Key ''data'', Key c, Key ''mosaic'', Index i, Key ''products'', Index j] rawData
          = Some (JObject kvs)"
    and "fieldViolation rt kvs f"
  shows "rejectsAt (LandingPageSchema rt [] (Some rawData))
           [Key ''data'', Key c, Key ''mosaic'', Index i, Key ''products'', Index j, Key f]"
proof (rule LandingPageSchema_rejects [OF assms(2)])
  fix d
  assume "jsonGet [Key c, Key ''mosaic'', Index i, Key ''products'', Index j] d = Some (JObject kvs)"
  then show "rejectsAt (DataSchema rt ([] @ [Key ''data'']) (Some d))
           [Key ''data'', Key c, Key ''mosaic'', Index i, Key ''products'', Index j, Key f]"
  proof (rule DataSchema_rejects [OF assms(1)])
    fix cat
    assume "jsonGet [Key ''mosaic'', Index i, Key ''products'', Index j] cat = Some (JObject kvs)"
    then show "rejectsAt (CategorySchema rt (([] @ [Key ''data'']) @ [Key c]) (Some cat))
           [Key ''data'', Key c, Key ''mosaic'', Index i, Key ''products'', Index j, Key f]"
    proof (rule CategorySchema_rejects)
      fix sec
      assume "jsonGet [Key ''products'', Index j] sec = Some (JObject kvs)"
      then show "rejectsAt
           (SectionSchema rt ((([] @ [Key ''data'']) @ [Key c]) @ [Key ''mosaic'', Index i]) (Some sec))
           [Key ''data'', Key c, Key ''mosaic'', Index i, Key ''products'', Index j, Key f]"
      proof (rule SectionSchema_rejects)
        fix prod
        assume "jsonGet [] prod = Some (JObject kvs)"
        then have "prod = JObject kvs" by simp
        with ProductSchema_rejects [OF assms(3),
            of "[Key ''data'', Key c, Key ''mosaic'', Index i, Key ''products'', Index j]"]
        show "rejectsAt
           (ProductSchema rt
             (((([] @ [Key ''data'']) @ [Key c]) @ [Key ''mosaic'', Index i])
                @ [Key ''products'', Index j]) (Some prod))
           [Key ''data'', Key c, Key ''mosaic'', Index i, Key ''products'', Index j, Key f]"
          by simp
      qed
    qed
  qed
qed

lemma violation_fails_request:
  assumes "c \<in> {''books'', ''games'', ''software''}"
    and "jsonGet [Key ''data'', Key c, Key ''mosaic'', Index i, Key ''products'', Index j] rawData
          = Some (JObject kvs)"
    and "fieldViolation rt kvs f"
    and "200 \<le> st" and "st \<le> 299"
    and "matchScriptTag html = Some payloadText" and "payloadText \<noteq> []"
    and "jsonParse rt payloadText = Inr rawData"
  shows "\<exists>issues. LandingPageSchema rt [] (Some rawData) = Inl issues
    \<and> [Key ''data'', Key c, Key ''mosaic'', Index i, Key ''products'', Index j, Key f]
          \<in> issuePath ` set issues
    \<and> fetchBundles rt (Responded st (Inr html)) = Inl (ZodError issues)
    \<and> serve rt now (Responded st (Inr html)) origin ''/'' =
         \<lparr>status = 500, headers = [(''Content-Type'', ''text/plain'')],
          body = ''Error: '' @ zodMessage rt issues\<rparr>
    \<and> (path \<in> {''/rss'', ''/games'', ''/books'', ''/software''} \<longrightarrow>
         serve rt now (Responded st (Inr html)) origin path =
           \<lparr>status = 500, headers = [],
            body = ''Error generating RSS feed: '' @ zodMessage rt issues\<rparr>)"
proof -
  from violation_rejected [OF assms(1-3)]
  obtain issues where invalid: "LandingPageSchema rt [] (Some rawData) = Inl issues"
    and named: "[Key ''data'', Key c, Key ''mosaic'', Index i, Key ''products'', Index j, Key f]
          \<in> issuePath ` set issues"
    by (auto simp: rejectsAt_def split: sum.splits)
  from assms(4-8) invalid
  have failed: "fetchBundles rt (Responded st (Inr html)) = Inl (ZodError issues)"
    by (simp add: fetchBundles_def fetchPayload_def)
  have "serve rt now (Responded st (Inr html)) origin ''/'' =
         \<lparr>status = 500, headers = [(''Content-Type'', ''text/plain'')],
          body = ''Error: '' @ zodMessage rt issues\<rparr>"
    by (simp add: serve_routes handleHomepage_failure [OF failed])
  moreover
  have "path \<in> {''/rss'', ''/games'', ''/books'', ''/software''} \<longrightarrow>
         serve rt now (Responded st (Inr html)) origin path =
           \<lparr>status = 500, headers = [],
            body = ''Error generating RSS feed: '' @ zodMessage rt issues\<rparr>"
    by (auto simp add: serve_routes handleRssRequest_failure [OF failed])
  ultimately show ?thesis
    using invalid named failed by blast
qed

lemma issuesUnder_Inr [simp]: "issuesUnder p (Inr x)"
  by (simp add: issuesUnder_def)

lemma issuesUnder_Issue [simp]: "issuesUnder p (Inl [Issue code q]) = prefix p q"
  by (simp add: issuesUnder_def)

lemma issuesUnder_collect:
  "issuesUnder p f \<Longrightarrow> issuesUnder p x \<Longrightarrow> issuesUnder p (collect f x)"
  by (cases f; cases x) (simp_all add: issuesUnder_def)

lemma issuesUnder_zString: "prefix p q \<Longrightarrow> issuesUnder p (zString q j)"
  by (simp add: zString_def split: option.splits json.splits)

lemma issuesUnder_zUrl: "prefix p q \<Longrightarrow> issuesUnder p (zUrl rt q j)"
  by (simp add: zUrl_def split: option.splits json.splits)

lemma issuesUnder_ProductSchema: "prefix p q \<Longrightarrow> issuesUnder p (ProductSchema rt q j)"
  unfolding ProductSchema_def
  by (auto split: option.splits json.splits
      intro!: issuesUnder_collect issuesUnder_zString issuesUnder_zUrl)

lemma issuesUnder_zItems:
  assumes "\<And>q' j. prefix p q' \<Longrightarrow> issuesUnder p (S q' j)"
  shows "prefix p q \<Longrightarrow> issuesUnder p (zItems S q k xs)"
  by (induction xs arbitrary: k) (auto intro!: issuesUnder_collect assms)

lemma issuesUnder_zArray:
  assumes "\<And>q' j. prefix p q' \<Longrightarrow> issuesUnder p (S q' j)"
  shows "prefix p q \<Longrightarrow> issuesUnder p (zArray S q j)"
  unfolding zArray_def
  by (auto split: option.splits json.splits intro!: issuesUnder_zItems assms)

lemma issuesUnder_SectionSchema: "prefix p q \<Longrightarrow> issuesUnder p (SectionSchema rt q j)"
  unfolding SectionSchema_def
  by (auto split: option.splits json.splits
      intro!: issuesUnder_collect issuesUnder_zArray issuesUnder_ProductSchema)

lemma issuesUnder_CategorySchema: "prefix p q \<Longrightarrow> issuesUnder p (CategorySchema rt q j)"
  unfolding CategorySchema_def
  by (auto split: option.splits json.splits
      intro!: issuesUnder_collect issuesUnder_zArray issuesUnder_SectionSchema)

lemma issuesUnder_optional_category:
  "issuesUnder [Key ''data'', Key c] (zOptional (CategorySchema rt) [Key ''data'', Key c] j)"
  using issuesUnder_CategorySchema [of "[Key ''data'', Key c]" "[Key ''data'', Key c]" rt j]
  by (auto simp: zOptional_def issuesUnder_def split: option.splits sum.splits)

lemma issuesUnder_other_key:
  assumes "issuesUnder [Key ''data'', Key c'] r" and "c' \<noteq> c" and "r = Inl issues"
  shows "list_all (\<lambda>i. \<not> prefix [Key ''data'', Key c] (issuePath i)) issues"
  using assms by (auto simp: issuesUnder_def list_all_iff prefix_def)

lemma absent_category_skipped:
  assumes "c \<in> {''books'', ''games'', ''software''}"
    and "map_of rootFields ''data'' = Some (JObject dkvs)"
    and "map_of dkvs c = None"
  shows "case LandingPageSchema rt [] (Some (JObject rootFields)) of
           Inl issues \<Rightarrow> list_all (\<lambda>i. \<not> prefix [Key ''data'', Key c] (issuePath i)) issues
         | Inr v \<Rightarrow> categoryAt c (data v) = None"
proof -
  define B where "B = zOptional (CategorySchema rt) [Key ''data'', Key ''books''] (map_of dkvs ''books'')"
  define G where "G = zOptional (CategorySchema rt) [Key ''data'', Key ''games''] (map_of dkvs ''games'')"
  define S where
    "S = zOptional (CategorySchema rt) [Key ''data'', Key ''software''] (map_of dkvs ''software'')"
  have under: "issuesUnder [Key ''data'', Key ''books''] B"
    "issuesUnder [Key ''data'', Key ''games''] G"
    "issuesUnder [Key ''data'', Key ''software''] S"
    unfolding B_def G_def S_def by (rule issuesUnder_optional_category)+
  have absent: "c = ''books'' \<Longrightarrow> B = Inr None" "c = ''games'' \<Longrightarrow> G = Inr None"
    "c = ''software'' \<Longrightarrow> S = Inr None"
    using assms(3) by (simp_all add: B_def G_def S_def zOptional_def)
  have whole: "LandingPageSchema rt [] (Some (JObject rootFields)) =
      collect (Inr (\<lambda>d. \<lparr>data = d\<rparr>))
        (collect (collect (collect (Inr (\<lambda>b g s. \<lparr>books = b, games = g, software = s\<rparr>)) B) G) S)"
    using assms(2) by (simp add: LandingPageSchema_def DataSchema_def B_def G_def S_def)
  from assms(1) consider "c = ''books''" | "c = ''games''" | "c = ''software''"
    by (simp only: insert_iff empty_iff simp_thms) (elim disjE)
  then show ?thesis
  proof cases
    case 1
    with absent(1) under(2,3) show ?thesis
      unfolding whole
      by (cases G; cases S)
        (auto simp: categoryAt_def dest: issuesUnder_other_key [where c = "''books''"])
  next
    case 2
    with absent(2) under(1,3) show ?thesis
      unfolding whole
      by (cases B; cases S)
        (auto simp: categoryAt_def dest: issuesUnder_other_key [where c = "''games''"])
  next
    case 3
    with absent(3) under(1,2) show ?thesis
      unfolding whole
      by (cases B; cases G)
        (auto simp: categoryAt_def dest: issuesUnder_other_key [where c = "''software''"])
  qed
qed

text \<open>
  Claim C7. Validation is all or nothing. Let the parsed payload hold, in one of the three
  categories, in some section, a product object that violates the schema in a field: one
  of the eight required fields is missing or is not a string, or the image URL is a string
  that is not a URL. Then validation fails, and one of its issues names the path of that
  field; \<^verbatim>\<open>fetchBundles\<close> returns no list but fails with the validation error, and the five
  routes that run the pipeline answer with status 500 and the error's message, so that no
  item reaches a renderer. Conversely, a category key that is absent from the data object
  raises no issue of its own (no issue lies at or below its path), and when validation
  succeeds the category is absent from the validated data, which flattening skips.
\<close>

theorem validation_all_or_nothing:
  "(c \<in> {''books'', ''games'', ''software''}
      \<and> jsonGet [Key ''data'', Key c, Key ''mosaic'', Index i, Key ''products'', Index j] rawData
           = Some (JObject kvs)
      \<and> fieldViolation rt kvs f
      \<and> 200 \<le> st \<and> st \<le> 299
      \<and> matchScriptTag html = Some payloadText \<and> payloadText \<noteq> []
      \<and> jsonParse rt payloadText = Inr rawData
    \<longrightarrow> (\<exists>issues. LandingPageSchema rt [] (Some rawData) = Inl issues
          \<and> [Key ''data'', Key c, Key ''mosaic'', Index i, Key ''products'', Index j, Key f]
                \<in> issuePath ` set issues
          \<and> fetchBundles rt (Responded st (Inr html)) = Inl (ZodError issues)
          \<and> serve rt now (Responded st (Inr html)) origin ''/'' =
               \<lparr>status = 500, headers = [(''Content-Type'', ''text/plain'')],
                body = ''Error: '' @ zodMessage rt issues\<rparr>
          \<and> (path \<in> {''/rss'', ''/games'', ''/books'', ''/software''} \<longrightarrow>
               serve rt now (Responded st (Inr html)) origin path =
                 \<lparr>status = 500, headers = [],
                  body = ''Error generating RSS feed: '' @ zodMessage rt issues\<rparr>)))
   \<and> (c \<in> {''books'', ''games'', ''software''}
      \<and> map_of rootFields ''data'' = Some (JObject dataFields)
      \<and> map_of dataFields c = None
    \<longrightarrow> (case LandingPageSchema rt [] (Some (JObject rootFields)) of
           Inl issues \<Rightarrow> list_all (\<lambda>i. \<not> prefix [Key ''data'', Key c] (issuePath i)) issues
         | Inr v \<Rightarrow> categoryAt c (data v) = None
                     \<and> encounterOrder (data v)
                         = concat (map (\<lambda>k. case categoryAt k (data v) of
                                               None \<Rightarrow> []
                                             | Some cat \<Rightarrow> concat (map products (mosaic cat)))
                                     (filter (\<lambda>k. k \<noteq> c) [''books'', ''games'', ''software'']))))"
proof (intro conjI impI)
  assume "c \<in> {''books'', ''games'', ''software''}
      \<and> jsonGet [Key ''data'', Key c, Key ''mosaic'', Index i, Key ''products'', Index j] rawData
           = Some (JObject kvs)
      \<and> fieldViolation rt kvs f
      \<and> 200 \<le> st \<and> st \<le> 299
      \<and> matchScriptTag html = Some payloadText \<and> payloadText \<noteq> []
      \<and> jsonParse rt payloadText = Inr rawData"
  then show "\<exists>issues. LandingPageSchema rt [] (Some rawData) = Inl issues
          \<and> [Key ''data'', Key c, Key ''mosaic'', Index i, Key ''products'', Index j, Key f]
                \<in> issuePath ` set issues
          \<and> fetchBundles rt (Responded st (Inr html)) = Inl (ZodError issues)
          \<and> serve rt now (Responded st (Inr html)) origin ''/'' =
               \<lparr>status = 500, headers = [(''Content-Type'', ''text/plain'')],
                body = ''Error: '' @ zodMessage rt issues\<rparr>
          \<and> (path \<in> {''/rss'', ''/games'', ''/books'', ''/software''} \<longrightarrow>
               serve rt now (Responded st (Inr html)) origin path =
                 \<lparr>status = 500, headers = [],
                  body = ''Error generating RSS feed: '' @ zodMessage rt issues\<rparr>)"
    by (intro violation_fails_request) (elim conjE, assumption)+
next
  assume absent: "c \<in> {''books'', ''games'', ''software''}
      \<and> map_of rootFields ''data'' = Some (JObject dataFields)
      \<and> map_of dataFields c = None"
  then have skipped: "case LandingPageSchema rt [] (Some (JObject rootFields)) of
           Inl issues \<Rightarrow> list_all (\<lambda>i. \<not> prefix [Key ''data'', Key c] (issuePath i)) issues
         | Inr v \<Rightarrow> categoryAt c (data v) = None"
    by (intro absent_category_skipped) (elim conjE, assumption)+
  from absent consider "c = ''books''" | "c = ''games''" | "c = ''software''"
    by (simp only: insert_iff empty_iff simp_thms) (elim conjE disjE)
  then have "categoryAt c d = None \<Longrightarrow> encounterOrder d
      = concat (map (\<lambda>k. case categoryAt k d of
                            None \<Rightarrow> []
                          | Some cat \<Rightarrow> concat (map products (mosaic cat)))
                  (filter (\<lambda>k. k \<noteq> c) [''books'', ''games'', ''software'']))" for d
    by cases (simp_all add: categoryAt_def encounterOrder_def)
  with skipped
  show "case LandingPageSchema rt [] (Some (JObject rootFields)) of
           Inl issues \<Rightarrow> list_all (\<lambda>i. \<not> prefix [Key ''data'', Key c] (issuePath i)) issues
         | Inr v \<Rightarrow> categoryAt c (data v) = None
                     \<and> encounterOrder (data v)
                         = concat (map (\<lambda>k. case categoryAt k (data v) of
                                               None \<Rightarrow> []
                                             | Some cat \<Rightarrow> concat (map products (mosaic cat)))
                                     (filter (\<lambda>k. k \<noteq> c) [''books'', ''games'', ''software'']))"
    by (simp split: sum.splits)
qed

theorem validation_all_or_nothing_witness:
  "jsonGet [Key ''data'', Key ''games'', Key ''mosaic'', Index 0, Key ''products'', Index 1]
       brokenPayload = Some (JObject untitledFields)
   \<and> fieldViolation exampleRuntime untitledFields ''tile_name''
   \<and> fetchBundles exampleRuntime (pageWith brokenPayloadText) =
       Inl (ZodError [Issue invalid_type [Key ''data'', Key ''games'', Key ''mosaic'', Index 0,
                        Key ''products'', Index 1, Key ''tile_name'']])
   \<and> serve exampleRuntime 0 (pageWith brokenPayloadText) ''http://localhost:3000'' ''/games'' =
       \<lparr>status = 500, headers = [], body = ''Error generating RSS feed: 1 issue(s)''\<rparr>
   \<and> map_of tieDataFields ''software'' = None
   \<and> LandingPageSchema exampleRuntime [] (Some tiePayload) = Inr tiePage
   \<and> categoryAt ''software'' (data tiePage) = None
   \<and> encounterOrder (data tiePage) = [bk1, gm2, gm3]"
proof -
  have found: "jsonGet [Key ''data'', Key ''games'', Key ''mosaic'', Index 0, Key ''products'', Index 1]
       brokenPayload = Some (JObject untitledFields)"
    by (simp add: brokenPayload_def)
  have violated: "fieldViolation exampleRuntime untitledFields ''tile_name''"
    by (simp add: fieldViolation_def untitledFields_def)
  have matched: "matchScriptTag
      (''<html><body>'' @ scriptOpen @ brokenPayloadText @ scriptClose @ ''</body></html>'')
      = Some brokenPayloadText"
    using example_texts_plain(7) by (rule matchScriptTag_page)
  have absent: "map_of tieDataFields ''software'' = None"
    by (simp add: tieDataFields_def)
  have message: "zodMessage exampleRuntime [issue] = ''1 issue(s)''" for issue
    by (simp add: exampleRuntime_def decimal.simps digit_def)
  have valid: "LandingPageSchema exampleRuntime [] (Some (JObject [(''data'', JObject tieDataFields)]))
      = Inr tiePage"
    using validate_tiePayload by (simp add: tiePayload_def)
  from validation_all_or_nothing [where c = "''software''" and rt = exampleRuntime
      and rootFields = "[(''data'', JObject tieDataFields)]" and dataFields = tieDataFields,
      THEN conjunct2]
  have "case LandingPageSchema exampleRuntime [] (Some (JObject [(''data'', JObject tieDataFields)])) of
          Inl issues \<Rightarrow>
            list_all (\<lambda>i. \<not> prefix [Key ''data'', Key ''software''] (issuePath i)) issues
        | Inr v \<Rightarrow> categoryAt ''software'' (data v) = None
            \<and> encounterOrder (data v)
                = concat (map (\<lambda>k. case categoryAt k (data v) of
                                      None \<Rightarrow> []
                                    | Some cat \<Rightarrow> concat (map products (mosaic cat)))
                            (filter (\<lambda>k. k \<noteq> ''software'') [''books'', ''games'', ''software'']))"
    using absent by simp
  then have none: "categoryAt ''software'' (data tiePage) = None"
    and order: "encounterOrder (data tiePage) = [bk1, gm2, gm3]"
    unfolding valid by (simp_all add: categoryAt_def tiePage_def)
  from validation_all_or_nothing [where c = "''games''" and i = 0 and j = 1
      and rawData = brokenPayload and kvs = untitledFields and rt = exampleRuntime
      and f = "''tile_name''" and st = 200 and payloadText = brokenPayloadText
      and html = "''<html><body>'' @ scriptOpen @ brokenPayloadText @ scriptClose @ ''</body></html>''"
      and now = 0 and origin = "''http://localhost:3000''" and path = "''/games''"
      and rootFields = "[(''data'', JObject tieDataFields)]" and dataFields = tieDataFields,
      THEN conjunct1]
  have "\<exists>issues. LandingPageSchema exampleRuntime [] (Some brokenPayload) = Inl issues
      \<and> serve exampleRuntime 0 (pageWith brokenPayloadText) ''http://localhost:3000'' ''/games'' =
          \<lparr>status = 500, headers = [],
           body = ''Error generating RSS feed: '' @ zodMessage exampleRuntime issues\<rparr>"
    unfolding pageWith_def
    using found violated matched example_texts_plain(8) exampleJson_texts(4) by auto
  then have served:
    "serve exampleRuntime 0 (pageWith brokenPayloadText) ''http://localhost:3000'' ''/games'' =
       \<lparr>status = 500, headers = [], body = ''Error generating RSS feed: 1 issue(s)''\<rparr>"
    by (auto simp: validate_brokenPayload message)
  have failed: "fetchBundles exampleRuntime (pageWith brokenPayloadText) =
       Inl (ZodError [Issue invalid_type [Key ''data'', Key ''games'', Key ''mosaic'', Index 0,
                        Key ''products'', Index 1, Key ''tile_name'']])"
    by (simp add: fetchBundles_def fetchPayload_examples(4))
  show ?thesis
    using found violated failed served absent validate_tiePayload none order by blast
qed

end
